theory Spec2Isabelle
  imports Main "HOL-Library.Sublist"
begin

section \<open>Strings and the built-in operations of the runtime\<close>

text \<open>
  A JavaScript string is modelled as a \<^typ>\<open>string\<close> holding its UTF-8 bytes. Searching and
  replacing a well-formed substring in well-formed text gives the same result on bytes as
  on characters. Case conversion is modelled for the ASCII range: every byte above it is
  left as it is, where the built-in also maps the letters of other scripts.
\<close>

text \<open>
  The white space and the line terminators of the language, in UTF-8: the six of the ASCII
  range, U+00A0, U+1680, U+2000 to U+200A, U+2028, U+2029, U+202F, U+205F, U+3000 and
  U+FEFF.
\<close>

definition whiteSpaces :: "string list" where
  "whiteSpaces =
     [[CHR 0x09], [CHR 0x0A], [CHR 0x0B], [CHR 0x0C], [CHR 0x0D], [CHR 0x20],
      [CHR 0xC2, CHR 0xA0],
      [CHR 0xE1, CHR 0x9A, CHR 0x80],
      [CHR 0xE2, CHR 0x80, CHR 0x80], [CHR 0xE2, CHR 0x80, CHR 0x81],
      [CHR 0xE2, CHR 0x80, CHR 0x82], [CHR 0xE2, CHR 0x80, CHR 0x83],
      [CHR 0xE2, CHR 0x80, CHR 0x84], [CHR 0xE2, CHR 0x80, CHR 0x85],
      [CHR 0xE2, CHR 0x80, CHR 0x86], [CHR 0xE2, CHR 0x80, CHR 0x87],
      [CHR 0xE2, CHR 0x80, CHR 0x88], [CHR 0xE2, CHR 0x80, CHR 0x89],
      [CHR 0xE2, CHR 0x80, CHR 0x8A],
      [CHR 0xE2, CHR 0x80, CHR 0xA8], [CHR 0xE2, CHR 0x80, CHR 0xA9],
      [CHR 0xE2, CHR 0x80, CHR 0xAF],
      [CHR 0xE2, CHR 0x81, CHR 0x9F],
      [CHR 0xE3, CHR 0x80, CHR 0x80],
      [CHR 0xEF, CHR 0xBB, CHR 0xBF]]"

text \<open>The text without the members of \<open>ws\<close> it starts with.\<close>

function stripLeading :: "string list \<Rightarrow> string \<Rightarrow> string" where
  "stripLeading ws s =
     (case find (\<lambda>w. w \<noteq> [] \<and> prefix w s) ws of
        None \<Rightarrow> s
      | Some w \<Rightarrow> stripLeading ws (drop (length w) s))"
  by pat_completeness auto
termination
  by (relation "measure (\<lambda>(ws, s). length s)") (auto simp: find_Some_iff prefix_def)

declare stripLeading.simps [simp del]

text \<open>\<^verbatim>\<open>s.trim()\<close>\<close>

definition trim :: "string \<Rightarrow> string" where
  "trim s = rev (stripLeading (map rev whiteSpaces) (rev (stripLeading whiteSpaces s)))"

definition isUpper :: "char \<Rightarrow> bool" where
  "isUpper c = (c \<in> set ''ABCDEFGHIJKLMNOPQRSTUVWXYZ'')"

definition isLower :: "char \<Rightarrow> bool" where
  "isLower c = (c \<in> set ''abcdefghijklmnopqrstuvwxyz'')"

definition isDigit :: "char \<Rightarrow> bool" where
  "isDigit c = (c \<in> set ''0123456789'')"

definition lowerChar :: "char \<Rightarrow> char" where
  "lowerChar c =
     (case map_of (zip ''ABCDEFGHIJKLMNOPQRSTUVWXYZ'' ''abcdefghijklmnopqrstuvwxyz'') c of
        Some l \<Rightarrow> l
      | None \<Rightarrow> c)"

text \<open>\<^verbatim>\<open>s.toLowerCase()\<close>\<close>

definition toLowerCase :: "string \<Rightarrow> string" where
  "toLowerCase s = map lowerChar s"

text \<open>\<^verbatim>\<open>s.startsWith(p)\<close>\<close>

definition startsWith :: "string \<Rightarrow> string \<Rightarrow> bool" where
  "startsWith s p = prefix p s"

text \<open>\<^verbatim>\<open>s.includes(sub)\<close> on strings: \<open>sub\<close> occurs in \<open>s\<close> as a contiguous run.\<close>

fun includes_str :: "string \<Rightarrow> string \<Rightarrow> bool" where
  "includes_str [] sub = (sub = [])"
| "includes_str (c # cs) sub = (prefix sub (c # cs) \<or> includes_str cs sub)"

text \<open>
  \<^verbatim>\<open>s.split(d)\<close> for a one-character separator: the pieces between the separators; the
  result is never empty (\<^verbatim>\<open>''.split(',')\<close> is \<^verbatim>\<open>['']\<close>).
\<close>

fun split_str :: "string \<Rightarrow> char \<Rightarrow> string list" where
  "split_str [] d = [[]]"
| "split_str (c # cs) d =
     (if c = d then [] # split_str cs d
      else (case split_str cs d of
              piece # pieces \<Rightarrow> (c # piece) # pieces
            | [] \<Rightarrow> [[c]]))"

text \<open>\<^verbatim>\<open>xs.join(sep)\<close>\<close>

fun join_str :: "string list \<Rightarrow> string \<Rightarrow> string" where
  "join_str [] sep = []"
| "join_str [x] sep = x"
| "join_str (x # y # zs) sep = x @ sep @ join_str (y # zs) sep"

text \<open>
  \<^verbatim>\<open>s.replace(/pat/g, rep)\<close> for a pattern that is a literal, non-empty text: every
  occurrence, found from left to right without overlap, is replaced.
\<close>

function replaceAll :: "string \<Rightarrow> string \<Rightarrow> string \<Rightarrow> string" where
  "replaceAll [] pat rep = []"
| "replaceAll (c # cs) pat rep =
     (if pat \<noteq> [] \<and> prefix pat (c # cs)
      then rep @ replaceAll (drop (length pat) (c # cs)) pat rep
      else c # replaceAll cs pat rep)"
  by pat_completeness auto
termination
  by (relation "measure (\<lambda>(s, pat, rep). length s)") auto

text \<open>The decimal digits of a number, as \<^verbatim>\<open>${n}\<close> prints it in a template string.\<close>

function show_nat :: "nat \<Rightarrow> string" where
  "show_nat n =
     (if n < 10 then [''0123456789'' ! n]
      else show_nat (n div 10) @ [''0123456789'' ! (n mod 10)])"
  by pat_completeness auto
termination
  by (relation "measure id") auto

section \<open>Regular expressions\<close>

text \<open>
  The patterns of the source are all of the form \<^verbatim>\<open>/^r$/\<close> without flags, and
  \<^verbatim>\<open>/^r$/.test(s)\<close> holds when the whole of \<open>s\<close> matches \<open>r\<close>. A pattern is a term of
  \<open>rexp\<close>; \<open>matches\<close> decides it by derivatives.
\<close>

datatype rexp =
    RZero
  | REps
  | RCls "char \<Rightarrow> bool"
  | RSeq rexp rexp
  | RAlt rexp rexp
  | RStar rexp

fun nullable :: "rexp \<Rightarrow> bool" where
  "nullable RZero = False"
| "nullable REps = True"
| "nullable (RCls p) = False"
| "nullable (RSeq r s) = (nullable r \<and> nullable s)"
| "nullable (RAlt r s) = (nullable r \<or> nullable s)"
| "nullable (RStar r) = True"

fun deriv :: "char \<Rightarrow> rexp \<Rightarrow> rexp" where
  "deriv c RZero = RZero"
| "deriv c REps = RZero"
| "deriv c (RCls p) = (if p c then REps else RZero)"
| "deriv c (RSeq r s) =
     (if nullable r then RAlt (RSeq (deriv c r) s) (deriv c s) else RSeq (deriv c r) s)"
| "deriv c (RAlt r s) = RAlt (deriv c r) (deriv c s)"
| "deriv c (RStar r) = RSeq (deriv c r) (RStar r)"

fun matches :: "rexp \<Rightarrow> string \<Rightarrow> bool" where
  "matches r [] = nullable r"
| "matches r (c # cs) = matches (deriv c r) cs"

text \<open>\<^verbatim>\<open>x?\<close>, \<^verbatim>\<open>x+\<close>, \<^verbatim>\<open>x{n}\<close> and a single character.\<close>

definition ROpt :: "rexp \<Rightarrow> rexp" where
  "ROpt r = RAlt REps r"

definition RPlus :: "rexp \<Rightarrow> rexp" where
  "RPlus r = RSeq r (RStar r)"

fun RRep :: "nat \<Rightarrow> rexp \<Rightarrow> rexp" where
  "RRep 0 r = REps"
| "RRep (Suc n) r = RSeq r (RRep n r)"

definition RChr :: "char \<Rightarrow> rexp" where
  "RChr c = RCls (\<lambda>x. x = c)"

text \<open>The words a pattern stands for: the meaning \<open>matches\<close> is checked against.\<close>

inductive_set rstar :: "string set \<Rightarrow> string set" for A :: "string set" where
  star_nil: "[] \<in> rstar A"
| star_app: "u \<in> A \<Longrightarrow> v \<in> rstar A \<Longrightarrow> u @ v \<in> rstar A"

fun lang :: "rexp \<Rightarrow> string set" where
  "lang RZero = {}"
| "lang REps = {[]}"
| "lang (RCls p) = {[c] | c. p c}"
| "lang (RSeq r s) = {u @ v | u v. u \<in> lang r \<and> v \<in> lang s}"
| "lang (RAlt r s) = lang r \<union> lang s"
| "lang (RStar r) = rstar (lang r)"

text \<open>The character classes of the source's patterns.\<close>

definition cls_digit :: "char \<Rightarrow> bool" where
  \<comment> \<open>\<^verbatim>\<open>\d\<close>\<close>
  "cls_digit c = isDigit c"

definition cls_hex :: "char \<Rightarrow> bool" where
  \<comment> \<open>\<^verbatim>\<open>[A-Fa-f0-9]\<close>\<close>
  "cls_hex c = (isDigit c \<or> c \<in> set ''ABCDEFabcdef'')"

definition cls_handle :: "char \<Rightarrow> bool" where
  \<comment> \<open>\<^verbatim>\<open>[a-z0-9_.\-()&]\<close>\<close>
  "cls_handle c = (isLower c \<or> isDigit c \<or> c \<in> set ''_.-()&'')"

definition cls_name :: "char \<Rightarrow> bool" where
  \<comment> \<open>\<^verbatim>\<open>[a-zA-Z0-9_-]\<close>\<close>
  "cls_name c = (isLower c \<or> isUpper c \<or> isDigit c \<or> c \<in> set ''_-'')"

section \<open>Rows, formats and typed records\<close>

text \<open>
  A raw row is the object the table decoder builds for one line: its keys are the header
  names, its values are strings. \<open>field row k\<close> is \<^verbatim>\<open>row[k]\<close>, with \<open>None\<close> for
  \<^verbatim>\<open>undefined\<close>.
\<close>

type_synonym raw_row = "(string \<times> string) list"

definition field :: "raw_row \<Rightarrow> string \<Rightarrow> string option" where
  "field row k = map_of row k"

text \<open>\<^verbatim>\<open>Object.keys(row)\<close>; the order of the keys plays no role in what follows.\<close>

definition row_keys :: "raw_row \<Rightarrow> string list" where
  "row_keys row = map fst row"

text \<open>
  Truthiness of a string-valued property: \<^verbatim>\<open>undefined\<close> and \<^verbatim>\<open>''\<close> are falsy;
  \<open>str_of v\<close> is \<^verbatim>\<open>v || ''\<close>.
\<close>

definition truthy :: "string option \<Rightarrow> bool" where
  "truthy v = (case v of None \<Rightarrow> False | Some s \<Rightarrow> s \<noteq> [])"

definition str_of :: "string option \<Rightarrow> string" where
  "str_of v = (case v of None \<Rightarrow> [] | Some s \<Rightarrow> s)"

definition quoted :: "string \<Rightarrow> string" where
  \<comment> \<open>the text between two apostrophes\<close>
  "quoted s = CHR 0x27 # s @ [CHR 0x27]"

definition newline :: string where
  "newline = [CHR 0x0A]"

text \<open>\<^verbatim>\<open>`Row ${index + 1}: `\<close>, the head of every row-indexed message.\<close>

definition rowPrefix :: "nat \<Rightarrow> string" where
  "rowPrefix index = ''Row '' @ show_nat (index + 1) @ '': ''"

datatype csv_format = Products | Metafields | Unknown

text \<open>
  \<^verbatim>\<open>detectCSVFormat(data)\<close>: the header names of the first row are lower-cased, then
  tested for the product headers (as substrings) and for the metafield headers (as
  members).
\<close>

definition detectCSVFormat :: "raw_row list \<Rightarrow> csv_format" where
  "detectCSVFormat data =
     (case data of
        [] \<Rightarrow> Unknown
      | row0 # _ \<Rightarrow>
          (let headers = map toLowerCase (row_keys row0);
               productHeaders = [''handle'', ''title''];
               hasProductHeaders =
                 list_all (\<lambda>header. list_ex (\<lambda>h. includes_str h header) headers) productHeaders;
               metafieldHeaders = [''handle'', ''namespace'', ''key'', ''value''];
               hasMetafieldHeaders =
                 list_all (\<lambda>header. header \<in> set headers) metafieldHeaders
           in if hasProductHeaders then Products
              else if hasMetafieldHeaders then Metafields
              else Unknown))"

text \<open>
  \<^verbatim>\<open>fixEncodingIssues(text)\<close>: eight replacements, one after the other. The texts outside
  ASCII are given by their UTF-8 bytes.
\<close>

definition mu_g :: string where
  \<comment> \<open>Greek mu (U+03BC), then \<^verbatim>\<open>g\<close>\<close>
  "mu_g = [CHR 0xCE, CHR 0xBC, CHR ''g'']"

definition replacement_g :: string where
  \<comment> \<open>the replacement character (U+FFFD), then \<^verbatim>\<open>g\<close>\<close>
  "replacement_g = [CHR 0xEF, CHR 0xBF, CHR 0xBD, CHR ''g'']"

definition A_circumflex :: string where
  \<comment> \<open>U+00C2\<close>
  "A_circumflex = [CHR 0xC3, CHR 0x82]"

definition a_circumflex_euro :: string where
  \<comment> \<open>U+00E2 U+20AC\<close>
  "a_circumflex_euro = [CHR 0xC3, CHR 0xA2, CHR 0xE2, CHR 0x82, CHR 0xAC]"

definition trade_mark :: string where
  \<comment> \<open>U+2122\<close>
  "trade_mark = [CHR 0xE2, CHR 0x84, CHR 0xA2]"

definition oe_ligature :: string where
  \<comment> \<open>U+0153\<close>
  "oe_ligature = [CHR 0xC5, CHR 0x93]"

definition en_dash :: string where
  \<comment> \<open>U+2013\<close>
  "en_dash = [CHR 0xE2, CHR 0x80, CHR 0x93]"

definition em_dash :: string where
  \<comment> \<open>U+2014\<close>
  "em_dash = [CHR 0xE2, CHR 0x80, CHR 0x94]"

definition fixEncodingIssues :: "string \<Rightarrow> string" where
  "fixEncodingIssues text =
     (if text = [] then text
      else
        (let t1 = replaceAll text ''?g'' mu_g;
             t2 = replaceAll t1 replacement_g mu_g;
             t3 = replaceAll t2 A_circumflex [];
             t4 = replaceAll t3 (a_circumflex_euro @ trade_mark) [CHR 0x27];
             t5 = replaceAll t4 (a_circumflex_euro @ oe_ligature) [CHR 0x22];
             t6 = replaceAll t5 a_circumflex_euro [CHR 0x22];
             t7 = replaceAll t6 (a_circumflex_euro @ [CHR 0x22]) en_dash;
             t8 = replaceAll t7 (a_circumflex_euro @ [CHR 0x22]) em_dash
         in t8))"

text \<open>The patterns of the validators.\<close>

definition handle_pattern :: rexp where
  \<comment> \<open>\<^verbatim>\<open>/^[a-z0-9_.\-()&]+$/\<close>\<close>
  "handle_pattern = RPlus (RCls cls_handle)"

definition name_pattern :: rexp where
  \<comment> \<open>\<^verbatim>\<open>/^[a-zA-Z0-9_-]+$/\<close>\<close>
  "name_pattern = RPlus (RCls cls_name)"

definition digits_pattern :: rexp where
  \<comment> \<open>\<^verbatim>\<open>/^\d+$/\<close>\<close>
  "digits_pattern = RPlus (RCls cls_digit)"

definition integer_pattern :: rexp where
  \<comment> \<open>\<^verbatim>\<open>/^-?\d+$/\<close>\<close>
  "integer_pattern = RSeq (ROpt (RChr CHR ''-'')) (RPlus (RCls cls_digit))"

definition decimal_pattern :: rexp where
  \<comment> \<open>\<^verbatim>\<open>/^-?\d*\.?\d+$/\<close>\<close>
  "decimal_pattern =
     RSeq (ROpt (RChr CHR ''-''))
       (RSeq (RStar (RCls cls_digit)) (RSeq (ROpt (RChr CHR ''.'')) (RPlus (RCls cls_digit))))"

definition color_pattern :: rexp where
  \<comment> \<open>\<^verbatim>\<open>/^#([A-Fa-f0-9]{6}|[A-Fa-f0-9]{3})$/\<close>\<close>
  "color_pattern =
     RSeq (RChr CHR ''#'') (RAlt (RRep 6 (RCls cls_hex)) (RRep 3 (RCls cls_hex)))"

text \<open>The typed record of a metafield row, and \<^verbatim>\<open>validateMetafieldCSVData(data)\<close>.\<close>

record metafield_row =
  m_handle :: string
  m_namespace :: string
  m_key :: string
  m_value :: string
  m_type :: string

definition requiredFields :: "string list" where
  "requiredFields = [''handle'', ''namespace'', ''key'', ''value'']"

definition validTypes :: "string list" where
  "validTypes =
     [''single_line_text_field'', ''multi_line_text_field'', ''number_integer'',
      ''number_decimal'', ''date'', ''date_time'', ''boolean'', ''color'', ''weight'',
      ''volume'', ''dimension'', ''rating'', ''json'', ''money'', ''file_reference'',
      ''page_reference'', ''product_reference'', ''variant_reference'',
      ''collection_reference'', ''url'']"

definition metafieldType :: "raw_row \<Rightarrow> string" where
  \<comment> \<open>\<^verbatim>\<open>row.type ? row.type.trim() : 'single_line_text_field'\<close>\<close>
  "metafieldType row =
     (if truthy (field row ''type'') then trim (str_of (field row ''type''))
      else ''single_line_text_field'')"

text \<open>The messages one row adds to \<^verbatim>\<open>rowErrors\<close>, in the order of the checks.\<close>

definition metafieldRowErrors :: "nat \<Rightarrow> raw_row \<Rightarrow> string list" where
  "metafieldRowErrors index row =
     concat (map (\<lambda>f.
         if \<not> truthy (field row f) \<or> trim (str_of (field row f)) = []
         then [rowPrefix index @ ''Missing required field '' @ quoted f]
         else []) requiredFields)
     @ (if truthy (field row ''handle'')
           \<and> \<not> matches handle_pattern (trim (str_of (field row ''handle'')))
        then [rowPrefix index
                @ ''Invalid handle format. Handle contains unsupported characters.'']
        else [])
     @ (if metafieldType row \<notin> set validTypes
        then [rowPrefix index @ ''Invalid metafield type '' @ quoted (metafieldType row)
                @ ''. Valid types: '' @ join_str validTypes '', '']
        else [])
     @ (if truthy (field row ''namespace'')
           \<and> \<not> matches name_pattern (trim (str_of (field row ''namespace'')))
        then [rowPrefix index
                @ ''Invalid namespace format. Use letters, numbers, underscores, and hyphens only.'']
        else [])
     @ (if truthy (field row ''key'')
           \<and> \<not> matches name_pattern (trim (str_of (field row ''key'')))
        then [rowPrefix index
                @ ''Invalid key format. Use letters, numbers, underscores, and hyphens only.'']
        else [])"

definition metafieldValidatedRow :: "raw_row \<Rightarrow> metafield_row" where
  "metafieldValidatedRow row =
     \<lparr> m_handle = trim (str_of (field row ''handle'')),
       m_namespace = trim (str_of (field row ''namespace'')),
       m_key = trim (str_of (field row ''key'')),
       m_value = fixEncodingIssues (trim (str_of (field row ''value''))),
       m_type = metafieldType row \<rparr>"

text \<open>
  The \<^verbatim>\<open>data.forEach((row, index) => ...)\<close> loop: the state is the pair of
  \<^verbatim>\<open>validatedRows\<close> and \<^verbatim>\<open>errors\<close>.
\<close>

fun validateMetafield_loop ::
  "nat \<Rightarrow> raw_row list \<Rightarrow> metafield_row list \<times> string list \<Rightarrow> metafield_row list \<times> string list" where
  "validateMetafield_loop index [] st = st"
| "validateMetafield_loop index (row # rows) (validatedRows, errors) =
     (let rowErrors = metafieldRowErrors index row in
      if length rowErrors > 0
      then validateMetafield_loop (index + 1) rows (validatedRows, errors @ rowErrors)
      else validateMetafield_loop (index + 1) rows
             (validatedRows @ [metafieldValidatedRow row], errors))"

text \<open>
  A thrown \<^verbatim>\<open>Error\<close> is the left summand, holding its message.
\<close>

definition validationFailed :: "string list \<Rightarrow> string" where
  \<comment> \<open>\<^verbatim>\<open>`CSV validation failed:\n${errors.join('\n')}`\<close>\<close>
  "validationFailed errors = ''CSV validation failed:'' @ newline @ join_str errors newline"

definition validateMetafieldCSVData :: "raw_row list \<Rightarrow> string + metafield_row list" where
  "validateMetafieldCSVData data =
     (case validateMetafield_loop 0 data ([], []) of
        (validatedRows, errors) \<Rightarrow>
          if length errors > 0 then Inl (validationFailed errors)
          else Inr validatedRows)"

text \<open>The typed record of a product row, and \<^verbatim>\<open>validateProductCSVData(data)\<close>.\<close>

record product_row =
  p_handle :: string
  p_title :: string
  p_bodyHtml :: string
  p_vendor :: string
  p_productType :: string
  p_tags :: string
  p_published :: "bool option"
  p_components :: string
  p_shippingInfo :: string
  p_unitPacks :: string
  p_coa :: string
  p_sds :: string
  p_storageConditions :: string
  p_volume :: string
  p_matrix :: string
  p_casNumber :: string
  p_catalogNumber :: string
  p_dotHazardous :: string
  p_expirationMonths :: string

text \<open>
  \<^verbatim>\<open>row[k1] || row[k2] || ... || ''\<close>: the first truthy one of the named properties, the
  empty string when there is none.
\<close>

fun firstTruthy :: "raw_row \<Rightarrow> string list \<Rightarrow> string" where
  "firstTruthy row [] = []"
| "firstTruthy row (k # ks) =
     (if truthy (field row k) then str_of (field row k) else firstTruthy row ks)"

definition expirationMonthsKeys :: "string list" where
  "expirationMonthsKeys =
     [''expiration months (product.metafields.custom.expiration_months)'',
      ''expirationMonths'', ''expiration months'']"

definition productRowErrors :: "nat \<Rightarrow> raw_row \<Rightarrow> string list" where
  "productRowErrors index row =
     (let handle = firstTruthy row [''Handle'', ''handle''];
          expirationMonths = firstTruthy row expirationMonthsKeys
      in
        (if \<not> truthy (field row ''Handle'') \<and> \<not> truthy (field row ''handle'')
         then [rowPrefix index @ ''Missing required field '' @ quoted ''Handle'']
         else [])
        @ (if handle \<noteq> [] \<and> \<not> matches handle_pattern (trim handle)
           then [rowPrefix index
                   @ ''Invalid handle format. Handle contains unsupported characters.'']
           else [])
        @ (if truthy (field row ''Published'')
              \<and> toLowerCase (str_of (field row ''Published''))
                    \<notin> set [''true'', ''false'', ''1'', ''0'', ''TRUE'', ''FALSE'']
           then [rowPrefix index @ ''Published field must be true/false or 1/0'']
           else [])
        @ (if expirationMonths \<noteq> [] \<and> \<not> matches digits_pattern (trim expirationMonths)
           then [rowPrefix index @ ''Expiration months must be a positive integer'']
           else []))"

definition productValidatedRow :: "raw_row \<Rightarrow> product_row" where
  "productValidatedRow row =
     (let handle = firstTruthy row [''Handle'', ''handle''] in
      \<lparr> p_handle = (if handle \<noteq> [] then trim handle else []),
        p_title = fixEncodingIssues (firstTruthy row [''Title'']),
        p_bodyHtml = fixEncodingIssues (firstTruthy row [''Body (HTML)'', ''bodyHtml'']),
        p_vendor = fixEncodingIssues (firstTruthy row [''Vendor'']),
        p_productType = fixEncodingIssues (firstTruthy row [''Type'']),
        p_tags = fixEncodingIssues (firstTruthy row [''Tags'']),
        p_published =
          (if truthy (field row ''Published'')
           then Some (str_of (field row ''Published'') \<in> set [''true'', ''1'', ''TRUE''])
           else None),
        p_components = fixEncodingIssues (firstTruthy row
          [''Components (product.metafields.custom.components)'', ''components'']),
        p_shippingInfo = fixEncodingIssues (firstTruthy row
          [''Shipping Info (product.metafields.custom.shipping_info)'', ''shippingInfo'',
           ''Shipping Info'']),
        p_unitPacks = fixEncodingIssues (firstTruthy row
          [''Unit/Packs (product.metafields.custom.unit_packs)'', ''unitPacks'',
           ''Unit/Packs'']),
        p_coa = fixEncodingIssues (firstTruthy row
          [''COA (product.metafields.custom.coa)'', ''coa'', ''COA'']),
        p_sds = fixEncodingIssues (firstTruthy row
          [''SDS (product.metafields.custom.sds)'', ''sds'', ''SDS'']),
        p_storageConditions = fixEncodingIssues (firstTruthy row
          [''Storage Conditions (product.metafields.custom.storage_conditions)'',
           ''storageConditions'', ''Storage Conditions'']),
        p_volume = fixEncodingIssues (firstTruthy row
          [''Volume (product.metafields.custom.volume)'', ''volume'', ''Volume'']),
        p_matrix = fixEncodingIssues (firstTruthy row
          [''Matrix (product.metafields.custom.matrix)'', ''matrix'', ''Matrix'']),
        p_casNumber = fixEncodingIssues (firstTruthy row
          [''CAS Number (product.metafields.custom.cas_number)'', ''casNumber'',
           ''CAS Number'', ''cas_number'']),
        p_catalogNumber = fixEncodingIssues (firstTruthy row
          [''Catalog Number (product.metafields.custom.catalog_number)'', ''catalogNumber'',
           ''Catalog Number'', ''catalog_number'']),
        p_dotHazardous = fixEncodingIssues (firstTruthy row
          [''DOT Hazardous (product.metafields.custom.dot_hazardous)'', ''dotHazardous'',
           ''DOT Hazardous'', ''dot_hazardous'']),
        p_expirationMonths = firstTruthy row expirationMonthsKeys \<rparr>)"

fun validateProduct_loop ::
  "nat \<Rightarrow> raw_row list \<Rightarrow> product_row list \<times> string list \<Rightarrow> product_row list \<times> string list" where
  "validateProduct_loop index [] st = st"
| "validateProduct_loop index (row # rows) (validatedRows, errors) =
     (let rowErrors = productRowErrors index row in
      if length rowErrors > 0
      then validateProduct_loop (index + 1) rows (validatedRows, errors @ rowErrors)
      else validateProduct_loop (index + 1) rows
             (validatedRows @ [productValidatedRow row], errors))"

definition validateProductCSVData :: "raw_row list \<Rightarrow> string + product_row list" where
  "validateProductCSVData data =
     (case validateProduct_loop 0 data ([], []) of
        (validatedRows, errors) \<Rightarrow>
          if length errors > 0 then Inl (validationFailed errors)
          else Inr validatedRows)"

text \<open>
  \<^verbatim>\<open>validateCSVData(data, options)\<close>. The value returned by the validators is
  \<^verbatim>\<open>{ data: validatedRows, format }\<close>: the constructor is the format.
\<close>

datatype validated_data =
    ValidatedProducts "product_row list"
  | ValidatedMetafields "metafield_row list"

definition validateCSVData :: "raw_row list \<Rightarrow> string + validated_data" where
  "validateCSVData data =
     (let format = detectCSVFormat data in
      if format = Unknown
      then Inl ''Unknown CSV format. Expected either product properties or metafields format.''
      else if format = Products
      then map_sum id ValidatedProducts (validateProductCSVData data)
      else map_sum id ValidatedMetafields (validateMetafieldCSVData data))"

section \<open>Grouping\<close>

text \<open>
  The grouped data is an object created by \<^verbatim>\<open>{}\<close>: its own properties are kept in the
  order of their creation, and a property that is not its own is looked up in
  \<^verbatim>\<open>Object.prototype\<close>, whose names are listed here.
\<close>

definition objectPrototypeNames :: "string list" where
  "objectPrototypeNames =
     [''constructor'', ''__defineGetter__'', ''__defineSetter__'', ''hasOwnProperty'',
      ''__lookupGetter__'', ''__lookupSetter__'', ''isPrototypeOf'',
      ''propertyIsEnumerable'', ''toString'', ''valueOf'', ''__proto__'',
      ''toLocaleString'']"

record field_update =
  f_namespace :: string
  f_key :: string
  f_value :: string
  f_type :: string

text \<open>\<^verbatim>\<open>obj[k] = v\<close> on own properties: an existing key keeps its place.\<close>

fun assign :: "(string \<times> 'v) list \<Rightarrow> string \<Rightarrow> 'v \<Rightarrow> (string \<times> 'v) list" where
  "assign [] k v = [(k, v)]"
| "assign ((k', v') # kvs) k v =
     (if k' = k then (k, v) # kvs else (k', v') # assign kvs k v)"

text \<open>
  \<^verbatim>\<open>groupMetafieldsByHandle(metafields)\<close>. When the handle is not an own property yet and
  \<^verbatim>\<open>Object.prototype\<close> has a property of that name, \<^verbatim>\<open>grouped[handle]\<close> is truthy and has
  no \<^verbatim>\<open>push\<close>: the call throws a \<^verbatim>\<open>TypeError\<close>.
\<close>

fun groupMetafields_loop ::
  "metafield_row list \<Rightarrow> (string \<times> field_update list) list
     \<Rightarrow> string + (string \<times> field_update list) list" where
  "groupMetafields_loop [] grouped = Inr grouped"
| "groupMetafields_loop (metafield # rest) grouped =
     (let update = \<lparr> f_namespace = m_namespace metafield, f_key = m_key metafield,
                      f_value = m_value metafield, f_type = m_type metafield \<rparr>
      in case map_of grouped (m_handle metafield) of
           Some updates \<Rightarrow>
             groupMetafields_loop rest (assign grouped (m_handle metafield) (updates @ [update]))
         | None \<Rightarrow>
             if m_handle metafield \<in> set objectPrototypeNames
             then Inl ''grouped[metafield.handle].push is not a function''
             else groupMetafields_loop rest (assign grouped (m_handle metafield) [update]))"

definition groupMetafieldsByHandle ::
  "metafield_row list \<Rightarrow> string + (string \<times> field_update list) list" where
  "groupMetafieldsByHandle metafields = groupMetafields_loop metafields []"

text \<open>
  \<^verbatim>\<open>groupProductsByHandle(products)\<close>: \<^verbatim>\<open>grouped[product.handle] = product\<close>. Assigning to
  \<^verbatim>\<open>__proto__\<close> sets the prototype and creates no own property.
\<close>

fun groupProducts_loop ::
  "product_row list \<Rightarrow> (string \<times> product_row) list \<Rightarrow> (string \<times> product_row) list" where
  "groupProducts_loop [] grouped = grouped"
| "groupProducts_loop (product # rest) grouped =
     (if p_handle product = ''__proto__'' then groupProducts_loop rest grouped
      else groupProducts_loop rest (assign grouped (p_handle product) product))"

definition groupProductsByHandle :: "product_row list \<Rightarrow> (string \<times> product_row) list" where
  "groupProductsByHandle products = groupProducts_loop products []"

datatype grouped_data =
    GroupedProducts "(string \<times> product_row) list"
  | GroupedMetafields "(string \<times> field_update list) list"

text \<open>
  \<^verbatim>\<open>groupDataByHandle(data, format)\<close>; the format is the constructor of the validated
  data, so the last \<^verbatim>\<open>throw\<close> of the source has no input here.
\<close>

definition groupDataByHandle :: "validated_data \<Rightarrow> string + grouped_data" where
  "groupDataByHandle validated =
     (case validated of
        ValidatedMetafields data \<Rightarrow> map_sum id GroupedMetafields (groupMetafieldsByHandle data)
      | ValidatedProducts data \<Rightarrow> Inr (GroupedProducts (groupProductsByHandle data)))"

definition format_of :: "grouped_data \<Rightarrow> csv_format" where
  "format_of g = (case g of GroupedProducts _ \<Rightarrow> Products | GroupedMetafields _ \<Rightarrow> Metafields)"

text \<open>
  \<^verbatim>\<open>Object.keys(obj)\<close>: the keys that are array indices (canonical decimal numerals below
  \<open>2^32 - 1\<close>) come first, in ascending order; the other keys follow in the order of
  their creation.
\<close>

fun digits_value :: "string \<Rightarrow> nat \<Rightarrow> nat" where
  "digits_value [] acc = acc"
| "digits_value (c # cs) acc =
     digits_value cs (10 * acc + length (takeWhile (\<lambda>d. d \<noteq> c) ''0123456789''))"

definition isArrayIndex :: "string \<Rightarrow> bool" where
  "isArrayIndex k =
     (k \<noteq> [] \<and> list_all isDigit k \<and> (k = ''0'' \<or> hd k \<noteq> CHR ''0'')
      \<and> length k \<le> 10 \<and> digits_value k 0 < 4294967295)"

definition Object_keys :: "(string \<times> 'v) list \<Rightarrow> string list" where
  "Object_keys obj =
     sort_key (\<lambda>k. digits_value k 0) (filter isArrayIndex (map fst obj))
     @ filter (\<lambda>k. \<not> isArrayIndex k) (map fst obj)"

definition handles_of :: "grouped_data \<Rightarrow> string list" where
  "handles_of g =
     (case g of GroupedProducts obj \<Rightarrow> Object_keys obj | GroupedMetafields obj \<Rightarrow> Object_keys obj)"

section \<open>Batch scheduler\<close>

text \<open>
  \<^verbatim>\<open>RATE_LIMIT_CONFIG\<close> of \<^verbatim>\<open>csvProcessor\<close>: the constants of the rate limiter and the
  thresholds of the adaptive batch size.
\<close>

record rate_limit_config =
  GRAPHQL_COST_LIMIT :: nat
  BATCH_SIZE :: nat
  INTER_BATCH_DELAY :: nat
  RETRY_DELAY :: nat
  MAX_RETRIES :: nat
  SMALL_DATASET :: nat
  MEDIUM_DATASET :: nat
  LARGE_DATASET :: nat

definition RATE_LIMIT_CONFIG :: rate_limit_config where
  "RATE_LIMIT_CONFIG =
     \<lparr> GRAPHQL_COST_LIMIT = 1000, BATCH_SIZE = 5, INTER_BATCH_DELAY = 50,
       RETRY_DELAY = 1000, MAX_RETRIES = 3,
       SMALL_DATASET = 10, MEDIUM_DATASET = 50, LARGE_DATASET = 100 \<rparr>"

text \<open>\<^verbatim>\<open>getOptimalBatchSize(totalItems)\<close>: the chain of comparisons of the source.\<close>

definition getOptimalBatchSize :: "nat \<Rightarrow> nat" where
  "getOptimalBatchSize totalItems =
     (if totalItems < SMALL_DATASET RATE_LIMIT_CONFIG then 3
      else if totalItems < MEDIUM_DATASET RATE_LIMIT_CONFIG then 2
      else if totalItems < LARGE_DATASET RATE_LIMIT_CONFIG then 2
      else 1)"

text \<open>\<^verbatim>\<open>calculateDelay(batchIndex, totalBatches, batchSize)\<close> ignores its arguments.\<close>

definition calculateDelay :: "nat \<Rightarrow> nat \<Rightarrow> nat \<Rightarrow> nat" where
  "calculateDelay batchIndex totalBatches batchSize = INTER_BATCH_DELAY RATE_LIMIT_CONFIG"

text \<open>
  \<^verbatim>\<open>items.slice(start, end)\<close> for indices \<open>0 \<le> start \<le> end\<close>: the elements at positions
  \<open>start, ..., end - 1\<close> that exist.
\<close>

definition slice :: "'a list \<Rightarrow> nat \<Rightarrow> nat \<Rightarrow> 'a list" where
  "slice items start end' = take (end' - start) (drop start items)"

text \<open>
  \<^verbatim>\<open>createBatches(items, batchSize)\<close>:
  \<^verbatim>\<open>for (let i = 0; i < items.length; i += batchSize) batches.push(items.slice(i, i + batchSize))\<close>.
  With \<open>batchSize = 0\<close> the index never moves and the loop does not end, so the loop is a
  partial function: \<open>None\<close> stands for a run that does not return.
\<close>

partial_function (option) createBatches_loop ::
  "'a list \<Rightarrow> nat \<Rightarrow> nat \<Rightarrow> 'a list list \<Rightarrow> 'a list list option" where
  "createBatches_loop items batchSize i batches =
     (if i < length items
      then createBatches_loop items batchSize (i + batchSize)
             (batches @ [slice items i (i + batchSize)])
      else Some batches)"

declare createBatches_loop.simps [code]

definition createBatches :: "'a list \<Rightarrow> nat \<Rightarrow> 'a list list option" where
  "createBatches items batchSize = createBatches_loop items batchSize 0 []"

section \<open>Value validation and formatting\<close>

text \<open>
  The built-in parsers of the runtime are parameters of the model: what
  \<^verbatim>\<open>JSON.parse\<close> returns (or the message of the \<^verbatim>\<open>SyntaxError\<close> it throws), the text
  \<^verbatim>\<open>JSON.stringify\<close> prints for a parsed value, whether \<^verbatim>\<open>Date.parse\<close> gives
  \<^verbatim>\<open>NaN\<close>, whether \<^verbatim>\<open>new URL\<close> throws, and the texts of
  \<^verbatim>\<open>parseInt(s, 10).toString()\<close> and \<^verbatim>\<open>parseFloat(s).toString()\<close>, which go through
  floating point.
\<close>

record 'j runtime =
  JSON_parse :: "string \<Rightarrow> string + 'j"
  JSON_stringify :: "'j \<Rightarrow> string"
  Date_parse_isNaN :: "string \<Rightarrow> bool"
  new_URL_throws :: "string \<Rightarrow> bool"
  parseInt_toString :: "string \<Rightarrow> string"
  parseFloat_toString :: "string \<Rightarrow> string"

text \<open>\<^verbatim>\<open>validateMetafieldValue(value, type)\<close>: the \<^verbatim>\<open>switch\<close> over the type.\<close>

definition validateMetafieldValue :: "'j runtime \<Rightarrow> string \<Rightarrow> string \<Rightarrow> bool" where
  "validateMetafieldValue rt v t =
     (if t = ''number_integer'' then matches integer_pattern v
      else if t = ''number_decimal'' then matches decimal_pattern v
      else if t = ''boolean'' then toLowerCase v \<in> set [''true'', ''false'', ''1'', ''0'']
      else if t = ''date'' then \<not> Date_parse_isNaN rt v
      else if t = ''date_time'' then \<not> Date_parse_isNaN rt v
      else if t = ''color'' then matches color_pattern v
      else if t = ''url'' then \<not> new_URL_throws rt v
      else if t = ''json''
      then (case JSON_parse rt v of Inl _ \<Rightarrow> False | Inr _ \<Rightarrow> True)
      else True)"

text \<open>
  \<^verbatim>\<open>formatMetafieldValue(value, type)\<close>; the \<^verbatim>\<open>json\<close> case throws what
  \<^verbatim>\<open>JSON.parse\<close> throws.
\<close>

definition formatMetafieldValue :: "'j runtime \<Rightarrow> string \<Rightarrow> string \<Rightarrow> string + string" where
  "formatMetafieldValue rt v t =
     (let cleanValue = fixEncodingIssues v in
      if t = ''boolean''
      then Inr (if toLowerCase cleanValue \<in> set [''true'', ''1''] then ''true'' else ''false'')
      else if t = ''json''
      then (case JSON_parse rt cleanValue of
              Inl e \<Rightarrow> Inl e
            | Inr parsed \<Rightarrow> Inr (JSON_stringify rt parsed))
      else if t = ''number_integer'' then Inr (parseInt_toString rt cleanValue)
      else if t = ''number_decimal'' then Inr (parseFloat_toString rt cleanValue)
      else if t = ''url''
      then (if \<not> startsWith cleanValue ''http://'' \<and> \<not> startsWith cleanValue ''https://''
            then Inr (''https://'' @ cleanValue)
            else Inr cleanValue)
      else Inr cleanValue)"

text \<open>
  \<^verbatim>\<open>JSON.stringify\<close> of an array of strings, which needs no parameter: each string is
  quoted, with the escapes of the standard.
\<close>

definition hexDigit :: "nat \<Rightarrow> char" where
  "hexDigit n = ''0123456789abcdef'' ! n"

definition JSON_escape :: "char \<Rightarrow> string" where
  "JSON_escape c =
     (if c = CHR 0x08 then [CHR 0x5C, CHR ''b'']
      else if c = CHR 0x09 then [CHR 0x5C, CHR ''t'']
      else if c = CHR 0x0A then [CHR 0x5C, CHR ''n'']
      else if c = CHR 0x0C then [CHR 0x5C, CHR ''f'']
      else if c = CHR 0x0D then [CHR 0x5C, CHR ''r'']
      else if c = CHR 0x22 then [CHR 0x5C, CHR 0x22]
      else if c = CHR 0x5C then [CHR 0x5C, CHR 0x5C]
      else if (of_char c :: nat) < 32
      then [CHR 0x5C, CHR ''u'', CHR ''0'', CHR ''0'',
            hexDigit ((of_char c :: nat) div 16), hexDigit ((of_char c :: nat) mod 16)]
      else [c])"

definition JSON_quote :: "string \<Rightarrow> string" where
  "JSON_quote s = CHR 0x22 # concat (map JSON_escape s) @ [CHR 0x22]"

definition JSON_stringify_strings :: "string list \<Rightarrow> string" where
  "JSON_stringify_strings xs = ''['' @ join_str (map JSON_quote xs) '','' @ '']''"

section \<open>The remote service and the state of a run\<close>

text \<open>
  The product the lookup returns, the input of the metafield mutation and the input of the
  product mutation. A key that the code does not set is \<open>None\<close>.
\<close>

record product =
  prod_id :: string
  prod_title :: string
  prod_tags :: "string list"

record metafield_input =
  i_ownerId :: "string option"
  i_namespace :: string
  i_key :: string
  i_value :: string
  i_type :: string

record update_input =
  upd_id :: string
  upd_title :: "string option"
  upd_descriptionHtml :: "string option"
  upd_vendor :: "string option"
  upd_productType :: "string option"
  upd_tags :: "string list option"
  upd_status :: "string option"
  upd_metafields :: "field_update list option"

datatype request =
    GET_PRODUCT_BY_HANDLE string
  | SET_METAFIELDS "metafield_input list"
  | UPDATE_PRODUCT_PROPERTIES update_input

text \<open>
  What a run does to the outside: a call \<^verbatim>\<open>admin.graphql(query, { variables, tries })\<close>, or a
  wait of some milliseconds.
\<close>

datatype event =
    Graphql request nat
  | Wait nat

text \<open>
  The answers of the remote service, one function for each query. \<open>Inl\<close> is the message
  of the error thrown while the call is awaited and its payload read; for the product
  mutation the answer is the list of the messages of \<^verbatim>\<open>userErrors\<close> and the title of the
  updated product.
\<close>

record remote =
  productByHandle :: "string \<Rightarrow> string + product option"
  metafieldsSet :: "metafield_input list \<Rightarrow> string + string list"
  productUpdate :: "update_input \<Rightarrow> string + string list \<times> string"

text \<open>An entry of \<^verbatim>\<open>results.success\<close> or \<^verbatim>\<open>results.errors\<close> is an object.\<close>

datatype js_value = JString string | JNumber nat | JBool bool

type_synonym js_object = "(string \<times> js_value) list"

record results =
  r_processed :: nat
  r_errors :: "js_object list"
  r_success :: "js_object list"
  r_total :: nat
  r_format :: csv_format

record exec_state =
  st_results :: results
  st_trace :: "event list"

definition emit :: "event \<Rightarrow> exec_state \<Rightarrow> exec_state" where
  "emit ev st = st\<lparr> st_trace := st_trace st @ [ev] \<rparr>"

definition pushError :: "string \<Rightarrow> string \<Rightarrow> exec_state \<Rightarrow> exec_state" where
  \<comment> \<open>\<^verbatim>\<open>results.errors.push({ handle, error })\<close>\<close>
  "pushError handle msg st =
     st\<lparr> st_results := (st_results st)\<lparr> r_errors :=
       r_errors (st_results st) @ [[(''handle'', JString handle), (''error'', JString msg)]] \<rparr> \<rparr>"

definition pushSuccess :: "js_object \<Rightarrow> exec_state \<Rightarrow> exec_state" where
  \<comment> \<open>\<^verbatim>\<open>results.success.push(entry)\<close>\<close>
  "pushSuccess entry st =
     st\<lparr> st_results := (st_results st)\<lparr> r_success := r_success (st_results st) @ [entry] \<rparr> \<rparr>"

definition incProcessed :: "exec_state \<Rightarrow> exec_state" where
  \<comment> \<open>\<^verbatim>\<open>results.processed++\<close>\<close>
  "incProcessed st =
     st\<lparr> st_results := (st_results st)\<lparr> r_processed := r_processed (st_results st) + 1 \<rparr> \<rparr>"

definition csvImportTag :: string where
  "csvImportTag = ''product_csv_import''"

section \<open>The synchronous executor\<close>

text \<open>
  A step of the executor takes the state of the run and returns the state it leaves,
  with \<open>Inl\<close> of the message when it throws.

  \<^verbatim>\<open>processMetafields\<close> of the request handler: first the loop that validates and formats
  every field update of the group.
\<close>

fun processMetafields_loop ::
  "'j runtime \<Rightarrow> product \<Rightarrow> field_update list \<Rightarrow> string list \<times> metafield_input list
     \<Rightarrow> string + string list \<times> metafield_input list" where
  "processMetafields_loop rt product [] acc = Inr acc"
| "processMetafields_loop rt product (metafield # rest) (validationErrors, validMetafields) =
     (if \<not> validateMetafieldValue rt (f_value metafield) (f_type metafield)
      then processMetafields_loop rt product rest
             (validationErrors @ [''Invalid value '' @ quoted (f_value metafield)
                @ '' for type '' @ quoted (f_type metafield)], validMetafields)
      else (case formatMetafieldValue rt (f_value metafield) (f_type metafield) of
              Inl e \<Rightarrow> Inl e
            | Inr formatted \<Rightarrow>
                processMetafields_loop rt product rest
                  (validationErrors,
                   validMetafields @ [\<lparr> i_ownerId = Some (prod_id product),
                     i_namespace = f_namespace metafield, i_key = f_key metafield,
                     i_value = formatted, i_type = f_type metafield \<rparr>])))"

definition tagsOnly :: "string \<Rightarrow> string list \<Rightarrow> update_input" where
  \<comment> \<open>\<^verbatim>\<open>{ id: product.id, tags: updatedTags }\<close>\<close>
  "tagsOnly pid tags =
     \<lparr> upd_id = pid, upd_title = None, upd_descriptionHtml = None, upd_vendor = None,
       upd_productType = None, upd_tags = Some tags, upd_status = None,
       upd_metafields = None \<rparr>"

text \<open>
  The tag-add after a successful metafield mutation: whatever the call answers or throws
  is only logged.
\<close>

definition addImportTag :: "remote \<Rightarrow> product \<Rightarrow> exec_state \<Rightarrow> exec_state" where
  "addImportTag remote product st =
     (if csvImportTag \<notin> set (prod_tags product)
      then emit (Graphql (UPDATE_PRODUCT_PROPERTIES
                   (tagsOnly (prod_id product) (prod_tags product @ [csvImportTag])))
                 (MAX_RETRIES RATE_LIMIT_CONFIG)) st
      else st)"

definition processMetafields ::
  "'j runtime \<Rightarrow> remote \<Rightarrow> product \<Rightarrow> field_update list \<Rightarrow> string \<Rightarrow> bool
     \<Rightarrow> exec_state \<Rightarrow> (string + unit) \<times> exec_state" where
  "processMetafields rt remote product metafieldsToSet handle dryRun st =
     (case processMetafields_loop rt product metafieldsToSet ([], []) of
        Inl e \<Rightarrow> (Inl e, st)
      | Inr (validationErrors, validMetafields) \<Rightarrow>
          if length validationErrors > 0
          then (Inr (), pushError handle
                  (''Validation errors: '' @ join_str validationErrors '', '') st)
          else if \<not> dryRun \<and> length validMetafields > 0
          then (let st1 = emit (Graphql (SET_METAFIELDS validMetafields)
                                  (MAX_RETRIES RATE_LIMIT_CONFIG)) st
                in case metafieldsSet remote validMetafields of
                     Inl e \<Rightarrow> (Inl e, st1)
                   | Inr userErrors \<Rightarrow>
                       if length userErrors > 0
                       then (Inr (), pushError handle
                               (''Metafield update errors: '' @ join_str userErrors '', '') st1)
                       else (Inr (), pushSuccess
                               [(''handle'', JString handle),
                                (''metafieldsUpdated'', JNumber (length validMetafields)),
                                (''productTitle'', JString (prod_title product))]
                               (addImportTag remote product st1)))
          else (Inr (), pushSuccess
                  [(''handle'', JString handle),
                   (''metafieldsToUpdate'', JNumber (length validMetafields)),
                   (''productTitle'', JString (prod_title product)),
                   (''dryRun'', JBool True)] st))"

text \<open>
  The two blocks of \<^verbatim>\<open>processProductProperties\<close> that are the same text in the request
  handler and in the background processor: the merge of the tags, and the list of
  metafields.
\<close>

definition nonEmpty :: "string option \<Rightarrow> string \<Rightarrow> string option" where
  \<comment> \<open>\<^verbatim>\<open>if (s) updateInput.k = v\<close>\<close>
  "nonEmpty dflt s = (if s \<noteq> [] then Some s else dflt)"

definition mergeTags :: "product \<Rightarrow> string \<Rightarrow> string list" where
  "mergeTags product tags =
     (let tagsArray = (if length (prod_tags product) > 0 then prod_tags product else []);
          csvTags = (if tags \<noteq> []
                     then filter (\<lambda>tag. tag \<noteq> []) (map trim (split_str tags CHR '',''))
                     else []);
          tagsArray' = fold (\<lambda>tag acc. if tag \<notin> set acc then acc @ [tag] else acc)
                         csvTags tagsArray
      in if csvImportTag \<notin> set tagsArray' then tagsArray' @ [csvImportTag] else tagsArray')"

definition customField :: "string \<Rightarrow> string \<Rightarrow> string \<Rightarrow> field_update" where
  "customField k v t = \<lparr> f_namespace = ''custom'', f_key = k, f_value = v, f_type = t \<rparr>"

definition componentsValue :: "'j runtime \<Rightarrow> string \<Rightarrow> string" where
  "componentsValue rt components =
     (if includes_str components '';''
      then JSON_stringify_strings
             (filter (\<lambda>c. c \<noteq> []) (map trim (split_str components CHR '';'')))
      else (case JSON_parse rt components of
              Inr _ \<Rightarrow> components
            | Inl _ \<Rightarrow> JSON_stringify_strings [trim components]))"

definition urlOrText :: "string \<Rightarrow> string" where
  "urlOrText v =
     (if startsWith v ''http://'' \<or> startsWith v ''https://'' then ''url''
      else ''single_line_text_field'')"

definition textField :: "string \<Rightarrow> string \<Rightarrow> field_update list" where
  "textField k v = (if v \<noteq> [] then [customField k v ''single_line_text_field''] else [])"

definition propertyMetafields :: "'j runtime \<Rightarrow> product_row \<Rightarrow> field_update list" where
  "propertyMetafields rt productData =
     (if p_components productData \<noteq> []
      then [customField ''components'' (componentsValue rt (p_components productData)) ''json'']
      else [])
     @ textField ''shipping_info'' (p_shippingInfo productData)
     @ textField ''unit_packs'' (p_unitPacks productData)
     @ (if p_coa productData \<noteq> []
        then [customField ''coa'' (p_coa productData) (urlOrText (p_coa productData))]
        else [])
     @ (if p_sds productData \<noteq> []
        then [customField ''sds'' (p_sds productData) (urlOrText (p_sds productData))]
        else [])
     @ textField ''storage_conditions'' (p_storageConditions productData)
     @ textField ''volume'' (p_volume productData)
     @ textField ''matrix'' (p_matrix productData)
     @ textField ''cas_number'' (p_casNumber productData)
     @ textField ''catalog_number'' (p_catalogNumber productData)
     @ textField ''dot_hazardous'' (p_dotHazardous productData)
     @ (if p_expirationMonths productData \<noteq> []
        then [customField ''expiration_months'' (p_expirationMonths productData)
                ''number_integer'']
        else [])"

definition statusOf :: "bool option \<Rightarrow> string option" where
  "statusOf published = map_option (\<lambda>p. if p then ''ACTIVE'' else ''DRAFT'') published"

definition metafieldsKey :: "field_update list \<Rightarrow> field_update list option" where
  \<comment> \<open>\<^verbatim>\<open>if (metafields.length > 0) updateInput.metafields = metafields\<close>\<close>
  "metafieldsKey metafields = (if length metafields > 0 then Some metafields else None)"

text \<open>
  The update input \<^verbatim>\<open>processProductProperties\<close> of the request handler assembles
  (\<^verbatim>\<open>api.process-csv.jsx\<close>).
\<close>

definition processProductProperties_updateInput ::
  "'j runtime \<Rightarrow> product \<Rightarrow> product_row \<Rightarrow> update_input" where
  "processProductProperties_updateInput rt product productData =
     \<lparr> upd_id = prod_id product,
       upd_title = nonEmpty None (p_title productData),
       upd_descriptionHtml =
         (if p_bodyHtml productData \<noteq> [] then Some (p_bodyHtml productData) else None),
       upd_vendor = nonEmpty None (p_vendor productData),
       upd_productType = nonEmpty None (p_productType productData),
       upd_tags = Some (mergeTags product (p_tags productData)),
       upd_status = statusOf (p_published productData),
       upd_metafields = metafieldsKey (propertyMetafields rt productData) \<rparr>"

text \<open>\<^verbatim>\<open>Object.keys(updateInput).length\<close>\<close>

definition keyCount :: "update_input \<Rightarrow> nat" where
  "keyCount u =
     1 + (if upd_title u = None then 0 else 1)
       + (if upd_descriptionHtml u = None then 0 else 1)
       + (if upd_vendor u = None then 0 else 1)
       + (if upd_productType u = None then 0 else 1)
       + (if upd_tags u = None then 0 else 1)
       + (if upd_status u = None then 0 else 1)
       + (if upd_metafields u = None then 0 else 1)"

definition processProductProperties ::
  "'j runtime \<Rightarrow> remote \<Rightarrow> product \<Rightarrow> product_row \<Rightarrow> string \<Rightarrow> bool
     \<Rightarrow> exec_state \<Rightarrow> (string + unit) \<times> exec_state" where
  "processProductProperties rt remote product productData handle dryRun st =
     (let updateInput = processProductProperties_updateInput rt product productData in
      if \<not> dryRun
      then (let st1 = emit (Graphql (UPDATE_PRODUCT_PROPERTIES updateInput)
                              (MAX_RETRIES RATE_LIMIT_CONFIG)) st
            in case productUpdate remote updateInput of
                 Inl e \<Rightarrow> (Inl e, st1)
               | Inr (userErrors, updatedTitle) \<Rightarrow>
                   if length userErrors > 0
                   then (Inr (), pushError handle
                           (''Product update errors: '' @ join_str userErrors '', '') st1)
                   else (Inr (), pushSuccess
                           [(''handle'', JString handle),
                            (''fieldsUpdated'', JNumber (keyCount updateInput - 1)),
                            (''productTitle'', JString updatedTitle)] st1))
      else (Inr (), pushSuccess
              [(''handle'', JString handle),
               (''fieldsToUpdate'', JNumber (keyCount updateInput - 1)),
               (''productTitle'', JString (prod_title product)),
               (''dryRun'', JBool True)] st))"

text \<open>
  The operation on one handle: the body of \<^verbatim>\<open>batch.map(async (handle) => ...)\<close> in
  \<^verbatim>\<open>action\<close>, with its \<^verbatim>\<open>catch\<close> block.
\<close>

definition action_catch :: "string \<Rightarrow> string \<Rightarrow> exec_state \<Rightarrow> exec_state" where
  "action_catch handle msg st =
     pushError handle (''Processing error: '' @ msg)
       (if includes_str msg ''429'' \<or> includes_str msg ''rate limit''
        then emit (Wait (RETRY_DELAY RATE_LIMIT_CONFIG)) st
        else st)"

definition processGroup ::
  "'j runtime \<Rightarrow> remote \<Rightarrow> grouped_data \<Rightarrow> product \<Rightarrow> string \<Rightarrow> bool
     \<Rightarrow> exec_state \<Rightarrow> (string + unit) \<times> exec_state" where
  \<comment> \<open>the dispatch on the format; \<^verbatim>\<open>groupedData[handle]\<close> that is \<^verbatim>\<open>undefined\<close> throws at its first use\<close>
  "processGroup rt remote groupedData product handle dryRun st =
     (case groupedData of
        GroupedMetafields obj \<Rightarrow>
          (case map_of obj handle of
             None \<Rightarrow> (Inl (''Cannot read properties of undefined (reading '' @ quoted ''forEach'' @ '')''), st)
           | Some metafieldsToSet \<Rightarrow>
               processMetafields rt remote product metafieldsToSet handle dryRun st)
      | GroupedProducts obj \<Rightarrow>
          (case map_of obj handle of
             None \<Rightarrow> (Inl (''Cannot read properties of undefined (reading '' @ quoted ''title'' @ '')''), st)
           | Some productData \<Rightarrow>
               processProductProperties rt remote product productData handle dryRun st))"

definition action_handle ::
  "'j runtime \<Rightarrow> remote \<Rightarrow> grouped_data \<Rightarrow> bool \<Rightarrow> string \<Rightarrow> exec_state \<Rightarrow> exec_state" where
  "action_handle rt remote groupedData dryRun handle st =
     (let st1 = emit (Graphql (GET_PRODUCT_BY_HANDLE handle) (MAX_RETRIES RATE_LIMIT_CONFIG)) st
      in case productByHandle remote handle of
           Inl msg \<Rightarrow> action_catch handle msg st1
         | Inr None \<Rightarrow>
             pushError handle (''Product with handle '' @ quoted handle @ '' not found'') st1
         | Inr (Some product) \<Rightarrow>
             (case processGroup rt remote groupedData product handle dryRun st1 of
                (Inl msg, st2) \<Rightarrow> action_catch handle msg st2
              | (Inr _, st2) \<Rightarrow> incProcessed st2))"

text \<open>
  The loop over the batches. The operations of a batch run concurrently and each of them
  catches its own errors; the model lists their effects in the order of the keys of the
  batch. After every batch but the last the run waits for \<^verbatim>\<open>calculateDelay(...)\<close>.
\<close>

fun action_batches ::
  "'j runtime \<Rightarrow> remote \<Rightarrow> grouped_data \<Rightarrow> bool \<Rightarrow> nat \<Rightarrow> nat \<Rightarrow> nat
     \<Rightarrow> string list list \<Rightarrow> exec_state \<Rightarrow> exec_state" where
  "action_batches rt remote groupedData dryRun totalBatches optimalBatchSize batchIndex [] st = st"
| "action_batches rt remote groupedData dryRun totalBatches optimalBatchSize batchIndex (batch # rest) st =
     (let st1 = fold (action_handle rt remote groupedData dryRun) batch st;
          st2 = (if batchIndex + 1 < totalBatches
                 then emit (Wait (calculateDelay batchIndex totalBatches optimalBatchSize)) st1
                 else st1)
      in action_batches rt remote groupedData dryRun totalBatches optimalBatchSize (batchIndex + 1) rest st2)"

section \<open>The background executor\<close>



text \<open>
  The update input \<^verbatim>\<open>processProductProperties\<close> of the background processor assembles:
  \<^verbatim>\<open>if (productData.bodyHtml) updateInput.descriptionHtml = productData.title\<close>.
\<close>

definition bg_processProductProperties_updateInput ::
  "'j runtime \<Rightarrow> product \<Rightarrow> product_row \<Rightarrow> update_input" where
  "bg_processProductProperties_updateInput rt product productData =
     \<lparr> upd_id = prod_id product,
       upd_title = nonEmpty None (p_title productData),
       upd_descriptionHtml =
         (if p_bodyHtml productData \<noteq> [] then Some (p_title productData) else None),
       upd_vendor = nonEmpty None (p_vendor productData),
       upd_productType = nonEmpty None (p_productType productData),
       upd_tags = Some (mergeTags product (p_tags productData)),
       upd_status = statusOf (p_published productData),
       upd_metafields = metafieldsKey (propertyMetafields rt productData) \<rparr>"




section \<open>Reading the table\<close>

text \<open>
  \<^verbatim>\<open>fixMultilineCSV(csvText)\<close>: the state of the loop over the lines is
  \<^verbatim>\<open>fixedLines\<close>, \<^verbatim>\<open>currentLine\<close>, \<^verbatim>\<open>inQuotedField\<close> and \<^verbatim>\<open>quoteCount\<close>.
\<close>

definition countQuotes :: "string \<Rightarrow> nat" where
  \<comment> \<open>\<^verbatim>\<open>(line.match(/"/g) || []).length\<close>\<close>
  "countQuotes line = length (filter (\<lambda>c. c = CHR 0x22) line)"

fun fixMultilineCSV_loop ::
  "string list \<Rightarrow> string list \<times> string \<times> bool \<times> nat \<Rightarrow> string list \<times> string \<times> bool \<times> nat" where
  "fixMultilineCSV_loop [] st = st"
| "fixMultilineCSV_loop (line # rest) (fixedLines, currentLine, inQuotedField, quoteCount) =
     (let quoteCount' = quoteCount + countQuotes line in
      if inQuotedField \<or> quoteCount' mod 2 = 1
      then (let currentLine' = (if currentLine \<noteq> [] then currentLine @ '' '' @ line else line)
            in if quoteCount' mod 2 = 0
               then fixMultilineCSV_loop rest (fixedLines @ [currentLine'], [], False, 0)
               else fixMultilineCSV_loop rest (fixedLines, currentLine', True, quoteCount'))
      else fixMultilineCSV_loop rest (fixedLines @ [line], currentLine, inQuotedField, 0))"

definition fixMultilineCSV :: "string \<Rightarrow> string" where
  "fixMultilineCSV csvText =
     (case fixMultilineCSV_loop (split_str csvText CHR 0x0A) ([], [], False, 0) of
        (fixedLines, currentLine, _, _) \<Rightarrow>
          join_str (if currentLine \<noteq> [] then fixedLines @ [currentLine] else fixedLines)
            newline)"

text \<open>
  \<^verbatim>\<open>preprocessCSVForComponents(csvText)\<close>. The fields of a line are split at the commas
  outside quotes; a component value of one or two digits is merged with the fields that
  follow it while they are digits, and with one more field of letters, digits and hyphens.
\<close>

fun splitFields_loop :: "string \<Rightarrow> string list \<times> string \<times> bool \<Rightarrow> string list" where
  "splitFields_loop [] (fieldList, currentField, inQuotes) = fieldList @ [currentField]"
| "splitFields_loop (c # cs) (fieldList, currentField, inQuotes) =
     (if c = CHR 0x22 then splitFields_loop cs (fieldList, currentField @ [c], \<not> inQuotes)
      else if c = CHR '','' \<and> \<not> inQuotes then splitFields_loop cs (fieldList @ [currentField], [], inQuotes)
      else splitFields_loop cs (fieldList, currentField @ [c], inQuotes))"

definition cls_alnum_hyphen :: "char \<Rightarrow> bool" where
  \<comment> \<open>\<^verbatim>\<open>[a-zA-Z0-9-]\<close>\<close>
  "cls_alnum_hyphen c = (isLower c \<or> isUpper c \<or> isDigit c \<or> c = CHR ''-'')"

fun reconstruct :: "string list \<Rightarrow> string \<times> nat \<Rightarrow> string \<times> nat" where
  "reconstruct [] acc = acc"
| "reconstruct (f # fs) (reconstructedComponent, fieldsToMerge) =
     (let nextField = trim f in
      if matches digits_pattern nextField
      then reconstruct fs (reconstructedComponent @ '','' @ nextField, fieldsToMerge + 1)
      else if matches (RPlus (RCls cls_alnum_hyphen)) nextField \<and> length nextField > 1
      then (reconstructedComponent @ '','' @ nextField, fieldsToMerge + 1)
      else (reconstructedComponent, fieldsToMerge))"

fun findIndex :: "('a \<Rightarrow> bool) \<Rightarrow> 'a list \<Rightarrow> nat option" where
  "findIndex p [] = None"
| "findIndex p (x # xs) = (if p x then Some 0 else map_option Suc (findIndex p xs))"

definition preprocessLine :: "nat \<Rightarrow> string \<Rightarrow> string" where
  "preprocessLine componentColumnIndex line =
     (if trim line = [] then line
      else
        (let fieldList = splitFields_loop line ([], [], False) in
         if length fieldList > componentColumnIndex
         then (let componentValue = trim (fieldList ! componentColumnIndex) in
               if matches digits_pattern componentValue \<and> length componentValue < 3
               then (case reconstruct (drop (componentColumnIndex + 1) fieldList) (componentValue, 0) of
                       (reconstructedComponent, fieldsToMerge) \<Rightarrow>
                         if fieldsToMerge > 0
                         then join_str
                                (take componentColumnIndex fieldList
                                 @ [CHR 0x22 # reconstructedComponent @ [CHR 0x22]]
                                 @ drop (componentColumnIndex + 1 + fieldsToMerge) fieldList) '',''
                         else line)
               else line)
         else line))"

definition preprocessCSVForComponents :: "string \<Rightarrow> string" where
  "preprocessCSVForComponents csvText =
     (let lines = split_str csvText CHR 0x0A;
          headerLine = hd lines;
          headers = map (\<lambda>h. replaceAll (trim h) [CHR 0x22] []) (split_str headerLine CHR '','')
      in case findIndex (\<lambda>header. includes_str (toLowerCase header) ''component'') headers of
           None \<Rightarrow> csvText
         | Some componentColumnIndex \<Rightarrow>
             join_str (headerLine # map (preprocessLine componentColumnIndex) (tl lines)) newline)"

text \<open>
  The table decoder (\<^verbatim>\<open>Papa.parse\<close>) is a library outside the repository and a
  parameter of the model: its answer with the first and with the fallback configuration,
  each either the thrown message or the rows and the errors it reports.
\<close>

record papa_error =
  pe_message :: "string option"
  pe_row :: "nat option"
  pe_code :: "string option"

record papa_result =
  papa_data :: "raw_row list"
  papa_errors :: "papa_error list"

record papa =
  papa_standard :: "string \<Rightarrow> string + papa_result"
  papa_fallback :: "string \<Rightarrow> string + papa_result"

definition errorMessage :: "papa_error \<Rightarrow> string" where
  "errorMessage e =
     (let message = (if truthy (pe_message e) then str_of (pe_message e)
                     else ''Unknown parsing error'');
          message1 = (case pe_row e of
                        None \<Rightarrow> message
                      | Some row \<Rightarrow> rowPrefix row @ message)
      in if truthy (pe_code e) then message1 @ '' (Code: '' @ str_of (pe_code e) @ '')''
         else message1)"

definition maxPreviewRows :: nat where
  "maxPreviewRows = 25"

text \<open>
  The preview step of \<^verbatim>\<open>parseCSV\<close>: when the text has more lines than the header and
  \<^verbatim>\<open>maxPreviewRows\<close> rows, only these lines are kept.
\<close>

definition previewLimit :: "bool \<Rightarrow> string \<Rightarrow> string" where
  "previewLimit isPreview csvText =
     (if isPreview
      then (let lines = split_str csvText CHR 0x0A in
            if length lines > maxPreviewRows + 1
            then join_str (slice lines 0 (maxPreviewRows + 1)) newline
            else csvText)
      else csvText)"

text \<open>The text \<^verbatim>\<open>parseCSV\<close> has before the preview step.\<close>

definition cleanCSV :: "string \<Rightarrow> string" where
  "cleanCSV text =
     preprocessCSVForComponents (fixMultilineCSV
       (trim (replaceAll (replaceAll text [CHR 0x0D, CHR 0x0A] newline) [CHR 0x0D] newline)))"

text \<open>
  \<^verbatim>\<open>parseCSV(file, options)\<close> on the text of the file. Every error thrown inside is
  thrown again as \<^verbatim>\<open>`Failed to parse CSV: ${error.message}`\<close>. The value returned has an
  empty list of errors, so only the validated data is kept here.
\<close>

definition parseCSV :: "papa \<Rightarrow> bool \<Rightarrow> string \<Rightarrow> string + validated_data" where
  "parseCSV pp isPreview text =
     (let csvText = previewLimit isPreview (cleanCSV text);
          parsed = (case papa_standard pp csvText of
                      Inl _ \<Rightarrow> papa_fallback pp csvText
                    | Inr r \<Rightarrow> Inr r);
          outcome =
            (case parsed of
               Inl e \<Rightarrow> Inl e
             | Inr r \<Rightarrow>
                 if length (papa_errors r) > 0
                 then Inl (''CSV parsing errors: ''
                           @ join_str (map errorMessage (papa_errors r)) '', '')
                 else validateCSVData (papa_data r))
      in case outcome of
           Inl e \<Rightarrow> Inl (''Failed to parse CSV: '' @ e)
         | Inr v \<Rightarrow> Inr v)"

section \<open>The submission entry point\<close>

text \<open>
  The answers of \<^verbatim>\<open>action\<close>: the three answers with status 400 or 500, the answer that
  announces background processing (the job is created and run by the job queue, which
  is outside this model), and the summary of a synchronous run.
\<close>

datatype action_response =
    NoFileProvided
  | NoValidHandles
  | BackgroundProcessing nat
  | Processed results bool
  | FailedToProcess string

definition initialState :: "nat \<Rightarrow> csv_format \<Rightarrow> exec_state" where
  "initialState n format =
     \<lparr> st_results = \<lparr> r_processed = 0, r_errors = [], r_success = [], r_total = n,
                       r_format = format \<rparr>,
       st_trace = [] \<rparr>"

text \<open>
  What \<^verbatim>\<open>action\<close> does with the validated rows \<^verbatim>\<open>parseCSV\<close> returned: the grouping, the
  answers for no handle and for a large table, and the loop over the batches; \<open>None\<close>
  when the loop of \<^verbatim>\<open>createBatches\<close> does not return.
\<close>

definition action_run ::
  "'j runtime \<Rightarrow> remote \<Rightarrow> bool \<Rightarrow> validated_data
     \<Rightarrow> (action_response \<times> event list) option" where
  "action_run rt remote dryRun validated =
     (case groupDataByHandle validated of
        Inl e \<Rightarrow> Some (FailedToProcess e, [])
      | Inr groupedData \<Rightarrow>
          (let handles = handles_of groupedData in
           if length handles = 0 then Some (NoValidHandles, [])
           else if \<not> dryRun \<and> length handles > 50
           then Some (BackgroundProcessing (length handles), [])
           else
             (let optimalBatchSize = getOptimalBatchSize (length handles) in
              case createBatches handles optimalBatchSize of
                None \<Rightarrow> None
              | Some batches \<Rightarrow>
                  (let st = action_batches rt remote groupedData dryRun
                              (length batches) optimalBatchSize 0 batches
                              (initialState (length handles) (format_of groupedData))
                   in Some (Processed (st_results st) dryRun, st_trace st)))))"

text \<open>
  \<^verbatim>\<open>action\<close>, from the text of the uploaded file (\<open>None\<close> when the form has no file) and
  the \<^verbatim>\<open>dryRun\<close> flag to the answer and the trace of what the run did to the outside.
  The file is parsed with the preview option set to the \<^verbatim>\<open>dryRun\<close> flag.
\<close>

definition action ::
  "'j runtime \<Rightarrow> papa \<Rightarrow> remote \<Rightarrow> string option \<Rightarrow> bool
     \<Rightarrow> (action_response \<times> event list) option" where
  "action rt pp remote file dryRun =
     (case file of
        None \<Rightarrow> Some (NoFileProvided, [])
      | Some text \<Rightarrow>
          (case parseCSV pp dryRun text of
             Inl e \<Rightarrow> Some (FailedToProcess e, [])
           | Inr validated \<Rightarrow> action_run rt remote dryRun validated))"




section \<open>The table of the end-to-end scenario\<close>

text \<open>
  The text of a table with the header \<^verbatim>\<open>handle,namespace,key,value,type\<close> and the one
  row \<^verbatim>\<open>red-board,custom,color,red,single_line_text_field\<close>, the row the decoder reads
  from it, a decoder that reads this text so, and a remote service that has a product
  with the handle \<^verbatim>\<open>red-board\<close>.
\<close>

definition scenarioA_text :: string where
  "scenarioA_text =
     ''handle,namespace,key,value,type'' @ newline
     @ ''red-board,custom,color,red,single_line_text_field''"

definition scenarioA_row :: raw_row where
  "scenarioA_row =
     [(''handle'', ''red-board''), (''namespace'', ''custom''), (''key'', ''color''),
      (''value'', ''red''), (''type'', ''single_line_text_field'')]"

definition scenarioA_papa :: papa where
  "scenarioA_papa =
     \<lparr> papa_standard = (\<lambda>t. if t = scenarioA_text
                             then Inr \<lparr> papa_data = [scenarioA_row], papa_errors = [] \<rparr>
                             else Inl ''another text''),
       papa_fallback = (\<lambda>t. Inl ''another text'') \<rparr>"

definition scenarioA_remote :: remote where
  "scenarioA_remote =
     \<lparr> productByHandle = (\<lambda>h. if h = ''red-board''
                              then Inr (Some \<lparr> prod_id = ''gid://shopify/Product/1'',
                                               prod_title = ''Red Board'', prod_tags = [] \<rparr>)
                              else Inr None),
       metafieldsSet = (\<lambda>ms. Inr []),
       productUpdate = (\<lambda>u. Inr ([], ''Red Board'')) \<rparr>"

section \<open>Tables of any length for the examples\<close>





section \<open>An instance of the runtime for the examples\<close>


section \<open>Properties of the patterns\<close>

text \<open>\<open>matches\<close> decides membership in the language of the pattern.\<close>

lemma nullable_lang: "nullable r \<longleftrightarrow> [] \<in> lang r"
  by (induction r) (auto intro: star_nil)

lemma rstar_cons_elim:
  assumes "x \<in> rstar A" and "x = c # w"
  shows "\<exists>u v. w = u @ v \<and> c # u \<in> A \<and> v \<in> rstar A"
  using assms
proof (induction arbitrary: w rule: rstar.induct)
  case star_nil
  then show ?case by simp
next
  case (star_app u v)
  show ?case
  proof (cases u)
    case Nil
    with star_app show ?thesis by simp
  next
    case (Cons a u')
    with star_app.prems have "a = c" and "w = u' @ v" by simp_all
    with star_app.hyps Cons show ?thesis by blast
  qed
qed

lemma rstar_cons:
  "c # w \<in> rstar A \<longleftrightarrow> (\<exists>u v. w = u @ v \<and> c # u \<in> A \<and> v \<in> rstar A)"
proof
  assume "c # w \<in> rstar A"
  then show "\<exists>u v. w = u @ v \<and> c # u \<in> A \<and> v \<in> rstar A"
    by (rule rstar_cons_elim) simp
next
  assume "\<exists>u v. w = u @ v \<and> c # u \<in> A \<and> v \<in> rstar A"
  then obtain u v where w: "w = u @ v" and u: "c # u \<in> A" and v: "v \<in> rstar A" by blast
  from u v have "(c # u) @ v \<in> rstar A" by (rule star_app)
  with w show "c # w \<in> rstar A" by simp
qed

lemma deriv_lang: "w \<in> lang (deriv c r) \<longleftrightarrow> c # w \<in> lang r"
proof (induction r arbitrary: w)
  case (RSeq r s)
  show ?case
  proof (cases "nullable r")
    case True
    then have "[] \<in> lang r" by (simp add: nullable_lang)
    show ?thesis
    proof
      assume "w \<in> lang (deriv c (RSeq r s))"
      with True have "(\<exists>u v. w = u @ v \<and> u \<in> lang (deriv c r) \<and> v \<in> lang s) \<or> w \<in> lang (deriv c s)"
        by auto
      then show "c # w \<in> lang (RSeq r s)"
      proof
        assume "\<exists>u v. w = u @ v \<and> u \<in> lang (deriv c r) \<and> v \<in> lang s"
        then obtain u v where "w = u @ v" "c # u \<in> lang r" "v \<in> lang s"
          using RSeq.IH(1) by blast
        then have "c # w = (c # u) @ v" by simp
        with \<open>c # u \<in> lang r\<close> \<open>v \<in> lang s\<close> show ?thesis by (simp del: append_Cons) blast
      next
        assume "w \<in> lang (deriv c s)"
        then have "c # w \<in> lang s" using RSeq.IH(2) by blast
        with \<open>[] \<in> lang r\<close> have "[] @ (c # w) \<in> lang (RSeq r s)" by (simp del: append_Nil) blast
        then show ?thesis by simp
      qed
    next
      assume "c # w \<in> lang (RSeq r s)"
      then obtain u v where uv: "c # w = u @ v" "u \<in> lang r" "v \<in> lang s" by auto
      show "w \<in> lang (deriv c (RSeq r s))"
      proof (cases u)
        case Nil
        with uv have "w \<in> lang (deriv c s)" using RSeq.IH(2) by simp
        with True show ?thesis by simp
      next
        case (Cons a u')
        with uv have "a = c" "w = u' @ v" by simp_all
        with uv Cons have "u' \<in> lang (deriv c r)" using RSeq.IH(1) by simp
        with \<open>w = u' @ v\<close> uv True show ?thesis by auto
      qed
    qed
  next
    case False
    then have ne: "[] \<notin> lang r" by (simp add: nullable_lang)
    show ?thesis
    proof
      assume "w \<in> lang (deriv c (RSeq r s))"
      with False obtain u v where "w = u @ v" "u \<in> lang (deriv c r)" "v \<in> lang s" by auto
      then have "c # u \<in> lang r" using RSeq.IH(1) by blast
      have "c # w = (c # u) @ v" using \<open>w = u @ v\<close> by simp
      with \<open>c # u \<in> lang r\<close> \<open>v \<in> lang s\<close> show "c # w \<in> lang (RSeq r s)"
        by (simp del: append_Cons) blast
    next
      assume "c # w \<in> lang (RSeq r s)"
      then obtain u v where uv: "c # w = u @ v" "u \<in> lang r" "v \<in> lang s" by auto
      with ne obtain u' where "u = c # u'" by (cases u) auto
      with uv have "w = u' @ v" "u' \<in> lang (deriv c r)" using RSeq.IH(1) by simp_all
      with uv False show "w \<in> lang (deriv c (RSeq r s))" by auto
    qed
  qed
next
  case (RStar r)
  show ?case
  proof
    assume "w \<in> lang (deriv c (RStar r))"
    then obtain u v where "w = u @ v" "u \<in> lang (deriv c r)" "v \<in> rstar (lang r)" by auto
    then show "c # w \<in> lang (RStar r)" using RStar.IH by (auto simp: rstar_cons)
  next
    assume "c # w \<in> lang (RStar r)"
    then obtain u v where "w = u @ v" "c # u \<in> lang r" "v \<in> rstar (lang r)"
      by (auto simp: rstar_cons)
    then show "w \<in> lang (deriv c (RStar r))" using RStar.IH by auto
  qed
qed auto

lemma matches_lang: "matches r w \<longleftrightarrow> w \<in> lang r"
  by (induction w arbitrary: r) (simp_all add: nullable_lang deriv_lang)

lemma rstar_RCls: "rstar {[c] | c. p c} = {s. \<forall>c \<in> set s. p c}"
proof (rule set_eqI, rule iffI)
  fix s assume "s \<in> rstar {[c] | c. p c}"
  then show "s \<in> {s. \<forall>c \<in> set s. p c}" by (induction rule: rstar.induct) auto
next
  fix s assume "s \<in> {s. \<forall>c \<in> set s. p c}"
  then show "s \<in> rstar {[c] | c. p c}"
  proof (induction s)
    case Nil
    show ?case by (rule star_nil)
  next
    case (Cons a s)
    then have "[a] \<in> {[c] | c. p c}" and "s \<in> rstar {[c] | c. p c}" by auto
    then have "[a] @ s \<in> rstar {[c] | c. p c}" by (rule star_app)
    then show ?case by simp
  qed
qed

lemma matches_RStar_RCls: "matches (RStar (RCls p)) s \<longleftrightarrow> (\<forall>c \<in> set s. p c)"
  by (simp add: matches_lang rstar_RCls)

lemma matches_RPlus_RCls: "matches (RPlus (RCls p)) s \<longleftrightarrow> s \<noteq> [] \<and> (\<forall>c \<in> set s. p c)"
proof (cases s)
  case Nil
  then show ?thesis by (simp add: RPlus_def)
next
  case (Cons a s')
  then show ?thesis
    by (simp add: RPlus_def) (auto simp: matches_lang rstar_RCls)
qed

lemma matches_ROpt_RChr_RSeq:
  "matches (RSeq (ROpt (RChr d)) r) s \<longleftrightarrow> matches r s \<or> (\<exists>t. s = d # t \<and> matches r t)"
proof -
  have "lang (ROpt (RChr d)) = {[], [d]}"
    by (auto simp: ROpt_def RChr_def)
  then have "lang (RSeq (ROpt (RChr d)) r) = {u @ v | u v. (u = [] \<or> u = [d]) \<and> v \<in> lang r}"
    by auto
  also have "\<dots> = lang r \<union> {d # t | t. t \<in> lang r}"
    by (rule set_eqI) (simp, metis append_Cons append_Nil)
  finally show ?thesis by (auto simp: matches_lang)
qed


section \<open>Properties of the batch scheduler\<close>

lemma createBatches_loop_step:
  "i < length items \<Longrightarrow>
     createBatches_loop items n i bs =
       createBatches_loop items n (i + n) (bs @ [slice items i (i + n)])"
  by (subst createBatches_loop.simps) simp

lemma createBatches_loop_done:
  "\<not> i < length items \<Longrightarrow> createBatches_loop items n i bs = Some bs"
  by (subst createBatches_loop.simps) simp

lemma createBatches_loop_spec:
  assumes "0 < n"
  shows "\<exists>bs'. createBatches_loop items n i bs = Some (bs @ bs')
           \<and> concat bs' = drop i items
           \<and> (\<forall>b \<in> set bs'. b \<noteq> [] \<and> length b \<le> n)
           \<and> (\<forall>b \<in> set (butlast bs'). length b = n)
           \<and> (bs' = [] \<longleftrightarrow> length items \<le> i)"
proof (induction "length items - i" arbitrary: i bs rule: less_induct)
  case less
  show ?case
  proof (cases "i < length items")
    case False
    then have "createBatches_loop items n i bs = Some (bs @ [])"
      by (simp add: createBatches_loop_done)
    with False show ?thesis by auto
  next
    case True
    define s where "s = slice items i (i + n)"
    have s_eq: "s = take n (drop i items)" by (simp add: s_def slice_def)
    have step: "createBatches_loop items n i bs = createBatches_loop items n (i + n) (bs @ [s])"
      using True by (simp add: createBatches_loop_step s_def)
    have "length items - (i + n) < length items - i" using True assms by arith
    from less[OF this, of "bs @ [s]"] obtain bs'' where
      r: "createBatches_loop items n (i + n) (bs @ [s]) = Some ((bs @ [s]) @ bs'')"
      and c: "concat bs'' = drop (i + n) items"
      and ne: "\<forall>b \<in> set bs''. b \<noteq> [] \<and> length b \<le> n"
      and full: "\<forall>b \<in> set (butlast bs''). length b = n"
      and emp: "bs'' = [] \<longleftrightarrow> length items \<le> i + n"
      by blast
    have s_ne: "s \<noteq> []" using True assms by (simp add: s_eq)
    have s_le: "length s \<le> n" by (simp add: s_eq)
    have s_full: "bs'' \<noteq> [] \<Longrightarrow> length s = n" using emp by (simp add: s_eq)
    have "take n (drop i items) @ drop n (drop i items) = drop i items"
      by (rule append_take_drop_id)
    then have cc: "concat (s # bs'') = drop i items"
      using c by (simp add: s_eq add.commute)
    have "createBatches_loop items n i bs = Some (bs @ (s # bs''))"
      using step r by simp
    moreover have "\<forall>b \<in> set (s # bs''). b \<noteq> [] \<and> length b \<le> n"
      using ne s_ne s_le by simp
    moreover have "\<forall>b \<in> set (butlast (s # bs'')). length b = n"
      using full s_full by simp
    moreover have "(s # bs'' = []) \<longleftrightarrow> length items \<le> i" using True by simp
    ultimately show ?thesis using cc by blast
  qed
qed

lemma thresholds:
  "SMALL_DATASET RATE_LIMIT_CONFIG = 10" "MEDIUM_DATASET RATE_LIMIT_CONFIG = 50"
  "LARGE_DATASET RATE_LIMIT_CONFIG = 100"
  by (simp_all add: RATE_LIMIT_CONFIG_def)


text \<open>
  Claim C8. For every list of entity keys and every positive batch size,
  \<^verbatim>\<open>createBatches\<close> returns, and the batches it returns are consecutive slices of the
  input in input order: their concatenation is the input, every batch but the last has
  exactly the chosen size, every batch is non-empty and no longer than the chosen size,
  and there is no batch exactly when the input is empty.
\<close>

theorem createBatches_partition:
  assumes "0 < batchSize"
  shows "\<exists>batches. createBatches items batchSize = Some batches
           \<and> concat batches = items
           \<and> (\<forall>b \<in> set (butlast batches). length b = batchSize)
           \<and> (\<forall>b \<in> set batches. b \<noteq> [] \<and> length b \<le> batchSize)
           \<and> (batches = [] \<longleftrightarrow> items = [])"
  using createBatches_loop_spec[OF assms, of items 0 "[]"]
  by (auto simp: createBatches_def)

theorem createBatches_partition_witness:
  "createBatches [''a'', ''b'', ''c'', ''d'', ''e''] 2 = Some [[''a'', ''b''], [''c'', ''d''], [''e'']]"
proof -
  have pos: "0 < (2::nat)" by simp
  from createBatches_partition[OF pos, of "[''a'', ''b'', ''c'', ''d'', ''e'']"]
  obtain batches where
    r: "createBatches [''a'', ''b'', ''c'', ''d'', ''e''] 2 = Some batches" by blast
  moreover have "createBatches [''a'', ''b'', ''c'', ''d'', ''e''] 2
                   = Some [[''a'', ''b''], [''c'', ''d''], [''e'']]"
    by (simp add: createBatches_def createBatches_loop_step createBatches_loop_done slice_def)
  ultimately show ?thesis by simp
qed


text \<open>
  Claim C9. The batch size is a step function of the number of keys, with the thresholds
  of the configuration: 3 below \<^verbatim>\<open>SMALL_DATASET\<close>, 2 from there to below
  \<^verbatim>\<open>MEDIUM_DATASET\<close>, 2 from there to below \<^verbatim>\<open>LARGE_DATASET\<close>, and 1 from
  \<^verbatim>\<open>LARGE_DATASET\<close> on.
\<close>

theorem getOptimalBatchSize_step:
  "(n < SMALL_DATASET RATE_LIMIT_CONFIG \<longrightarrow> getOptimalBatchSize n = 3)
   \<and> (SMALL_DATASET RATE_LIMIT_CONFIG \<le> n \<and> n < MEDIUM_DATASET RATE_LIMIT_CONFIG
        \<longrightarrow> getOptimalBatchSize n = 2)
   \<and> (MEDIUM_DATASET RATE_LIMIT_CONFIG \<le> n \<and> n < LARGE_DATASET RATE_LIMIT_CONFIG
        \<longrightarrow> getOptimalBatchSize n = 2)
   \<and> (LARGE_DATASET RATE_LIMIT_CONFIG \<le> n \<longrightarrow> getOptimalBatchSize n = 1)"
  by (simp add: getOptimalBatchSize_def RATE_LIMIT_CONFIG_def)

theorem getOptimalBatchSize_step_witness:
  "getOptimalBatchSize 9 = 3 \<and> getOptimalBatchSize 10 = 2 \<and> getOptimalBatchSize 49 = 2
   \<and> getOptimalBatchSize 50 = 2 \<and> getOptimalBatchSize 99 = 2
   \<and> getOptimalBatchSize 100 = 1 \<and> getOptimalBatchSize 500 = 1"
  using getOptimalBatchSize_step[of 9] getOptimalBatchSize_step[of 10]
    getOptimalBatchSize_step[of 49] getOptimalBatchSize_step[of 50]
    getOptimalBatchSize_step[of 99] getOptimalBatchSize_step[of 100]
    getOptimalBatchSize_step[of 500]
  by (simp add: thresholds)


section \<open>Properties of value validation\<close>

lemma matches_integer_pattern:
  "matches integer_pattern v \<longleftrightarrow>
     (\<exists>ds. ds \<noteq> [] \<and> (\<forall>c \<in> set ds. c \<in> set ''0123456789'') \<and> (v = ds \<or> v = CHR ''-'' # ds))"
  unfolding integer_pattern_def matches_ROpt_RChr_RSeq matches_RPlus_RCls cls_digit_def isDigit_def
  by blast

lemma matches_decimal_12_3: "matches decimal_pattern ''12.3''"
  by (simp add: decimal_pattern_def ROpt_def RChr_def RPlus_def cls_digit_def isDigit_def)


lemma not_integer_12_3: "\<not> matches integer_pattern ''12.3''"
  by (simp add: integer_pattern_def ROpt_def RChr_def RPlus_def cls_digit_def isDigit_def)

text \<open>
  Claim C7. Under the type \<^verbatim>\<open>number_integer\<close>, \<^verbatim>\<open>validateMetafieldValue\<close> accepts a
  value exactly when it is one or more decimal digits, with or without one minus sign in
  front; the value \<^verbatim>\<open>12.3\<close> is rejected under \<^verbatim>\<open>number_integer\<close> and accepted under
  \<^verbatim>\<open>number_decimal\<close>.
\<close>

theorem validateMetafieldValue_integer:
  "(validateMetafieldValue rt v ''number_integer'' \<longleftrightarrow>
      (\<exists>ds. ds \<noteq> [] \<and> (\<forall>c \<in> set ds. c \<in> set ''0123456789'')
            \<and> (v = ds \<or> v = CHR ''-'' # ds)))
   \<and> \<not> validateMetafieldValue rt ''12.3'' ''number_integer''
   \<and> validateMetafieldValue rt ''12.3'' ''number_decimal''"
proof (intro conjI)
  show "validateMetafieldValue rt v ''number_integer'' \<longleftrightarrow>
      (\<exists>ds. ds \<noteq> [] \<and> (\<forall>c \<in> set ds. c \<in> set ''0123456789'')
            \<and> (v = ds \<or> v = CHR ''-'' # ds))"
    unfolding matches_integer_pattern[symmetric]
    by (simp add: validateMetafieldValue_def)
  show "\<not> validateMetafieldValue rt ''12.3'' ''number_integer''"
    using not_integer_12_3 by (simp add: validateMetafieldValue_def)
  show "validateMetafieldValue rt ''12.3'' ''number_decimal''"
    using matches_decimal_12_3 by (simp add: validateMetafieldValue_def)
qed

theorem validateMetafieldValue_integer_witness:
  "\<forall>rt :: string runtime.
     validateMetafieldValue rt ''-42'' ''number_integer''
     \<and> validateMetafieldValue rt ''7'' ''number_integer''
     \<and> \<not> validateMetafieldValue rt ''4-2'' ''number_integer''
     \<and> \<not> validateMetafieldValue rt ''12.3'' ''number_integer''
     \<and> validateMetafieldValue rt ''12.3'' ''number_decimal''"
proof (intro allI conjI)
  fix rt :: "string runtime"
  note t = validateMetafieldValue_integer[of rt]
  have "''42'' \<noteq> [] \<and> (\<forall>c \<in> set ''42''. c \<in> set ''0123456789'')
          \<and> (''-42'' = ''42'' \<or> ''-42'' = CHR ''-'' # ''42'')" by simp
  then have "\<exists>ds. ds \<noteq> [] \<and> (\<forall>c \<in> set ds. c \<in> set ''0123456789'')
          \<and> (''-42'' = ds \<or> ''-42'' = CHR ''-'' # ds)" by (rule exI)
  then show "validateMetafieldValue rt ''-42'' ''number_integer''"
    using t[of "''-42''"] by (simp only:)
  have "''7'' \<noteq> [] \<and> (\<forall>c \<in> set ''7''. c \<in> set ''0123456789'')
          \<and> (''7'' = ''7'' \<or> ''7'' = CHR ''-'' # ''7'')" by simp
  then have "\<exists>ds. ds \<noteq> [] \<and> (\<forall>c \<in> set ds. c \<in> set ''0123456789'')
          \<and> (''7'' = ds \<or> ''7'' = CHR ''-'' # ds)" by (rule exI)
  then show "validateMetafieldValue rt ''7'' ''number_integer''"
    using t[of "''7''"] by (simp only:)
  show "\<not> validateMetafieldValue rt ''4-2'' ''number_integer''"
  proof
    assume "validateMetafieldValue rt ''4-2'' ''number_integer''"
    with t[of "''4-2''"] have "\<exists>ds. ds \<noteq> [] \<and> (\<forall>c \<in> set ds. c \<in> set ''0123456789'')
          \<and> (''4-2'' = ds \<or> ''4-2'' = CHR ''-'' # ds)" by (simp only:)
    then obtain ds where d: "\<forall>c \<in> set ds. c \<in> set ''0123456789''"
      and e: "''4-2'' = ds \<or> ''4-2'' = CHR ''-'' # ds" by blast
    from e have "ds = ''4-2''" by simp
    with d show False by simp
  qed
  from t[of "''12.3''"] show "\<not> validateMetafieldValue rt ''12.3'' ''number_integer''"
    by (rule conjunct1[OF conjunct2])
  from t[of "''12.3''"] show "validateMetafieldValue rt ''12.3'' ''number_decimal''"
    by (rule conjunct2[OF conjunct2])
qed

section \<open>Properties of format detection\<close>

lemma includes_str_refl: "includes_str s s"
  by (cases s) simp_all

lemma detectCSVFormat_Cons_iff:
  "detectCSVFormat data = Metafields \<longleftrightarrow>
     (\<exists>row0 rest. data = row0 # rest
        \<and> set [''handle'', ''namespace'', ''key'', ''value'']
              \<subseteq> set (map toLowerCase (row_keys row0))
        \<and> \<not> list_ex (\<lambda>h. includes_str h ''title'') (map toLowerCase (row_keys row0)))"
proof (cases data)
  case Nil
  then show ?thesis by (simp add: detectCSVFormat_def)
next
  case (Cons row0 rest)
  define hs where "hs = map toLowerCase (row_keys row0)"
  have d: "detectCSVFormat data =
     (if list_ex (\<lambda>h. includes_str h ''handle'') hs \<and> list_ex (\<lambda>h. includes_str h ''title'') hs
      then Products
      else if set [''handle'', ''namespace'', ''key'', ''value''] \<subseteq> set hs then Metafields
      else Unknown)"
    unfolding Cons detectCSVFormat_def hs_def by (simp add: Let_def)
  have h: "''handle'' \<in> set hs \<Longrightarrow> list_ex (\<lambda>h. includes_str h ''handle'') hs"
    unfolding list_ex_iff using includes_str_refl by blast
  have "detectCSVFormat data = Metafields \<longleftrightarrow>
          set [''handle'', ''namespace'', ''key'', ''value''] \<subseteq> set hs
          \<and> \<not> list_ex (\<lambda>h. includes_str h ''title'') hs"
    unfolding d using h by auto
  then show ?thesis unfolding Cons hs_def by simp
qed


lemma detectCSVFormat_headers:
  "map toLowerCase (row_keys r1) = map toLowerCase (row_keys r2) \<Longrightarrow>
     detectCSVFormat (r1 # d1) = detectCSVFormat (r2 # d2)"
  by (simp add: detectCSVFormat_def)

text \<open>
  Claim C2, as amended. \<^verbatim>\<open>detectCSVFormat\<close> ignores the letter case of the headers: it
  answers \<^verbatim>\<open>metafields\<close> exactly when the table has a first row, the lower-cased names
  of its headers include \<^verbatim>\<open>handle\<close>, \<^verbatim>\<open>namespace\<close>, \<^verbatim>\<open>key\<close> and \<^verbatim>\<open>value\<close>, and no
  lower-cased header contains \<^verbatim>\<open>title\<close> (with one the table is a product table); and two
  tables whose first rows have the same headers up to letter case get the same answer.
\<close>

theorem detectCSVFormat_metafields:
  "(detectCSVFormat data = Metafields \<longleftrightarrow>
      (\<exists>row0 rest. data = row0 # rest
         \<and> set [''handle'', ''namespace'', ''key'', ''value'']
               \<subseteq> set (map toLowerCase (row_keys row0))
         \<and> \<not> list_ex (\<lambda>h. includes_str h ''title'') (map toLowerCase (row_keys row0))))
   \<and> (map toLowerCase (row_keys r1) = map toLowerCase (row_keys r2) \<longrightarrow>
        detectCSVFormat (r1 # d1) = detectCSVFormat (r2 # d2))"
proof (intro conjI impI)
  show "detectCSVFormat data = Metafields \<longleftrightarrow>
      (\<exists>row0 rest. data = row0 # rest
         \<and> set [''handle'', ''namespace'', ''key'', ''value'']
               \<subseteq> set (map toLowerCase (row_keys row0))
         \<and> \<not> list_ex (\<lambda>h. includes_str h ''title'') (map toLowerCase (row_keys row0)))"
    by (rule detectCSVFormat_Cons_iff)
next
  assume "map toLowerCase (row_keys r1) = map toLowerCase (row_keys r2)"
  then show "detectCSVFormat (r1 # d1) = detectCSVFormat (r2 # d2)"
    by (rule detectCSVFormat_headers)
qed

theorem detectCSVFormat_metafields_witness:
  "detectCSVFormat [[(''handle'', ''red-board''), (''namespace'', ''custom''),
       (''key'', ''color''), (''value'', ''red''), (''type'', ''single_line_text_field'')]]
     = Metafields
   \<and> detectCSVFormat [[(''HANDLE'', ''red-board''), (''NameSpace'', ''custom''),
       (''Key'', ''color''), (''value'', ''red''), (''Type'', ''single_line_text_field'')]]
     = detectCSVFormat [[(''handle'', ''red-board''), (''namespace'', ''custom''),
       (''key'', ''color''), (''value'', ''red''), (''type'', ''single_line_text_field'')]]"
proof
  let ?row = "[(''handle'', ''red-board''), (''namespace'', ''custom''),
       (''key'', ''color''), (''value'', ''red''), (''type'', ''single_line_text_field'')]"
  let ?ROW = "[(''HANDLE'', ''red-board''), (''NameSpace'', ''custom''),
       (''Key'', ''color''), (''value'', ''red''), (''Type'', ''single_line_text_field'')]"
  have keys: "map toLowerCase (row_keys ?row) = [''handle'', ''namespace'', ''key'', ''value'', ''type'']"
    by (simp add: row_keys_def toLowerCase_def lowerChar_def)
  have "set [''handle'', ''namespace'', ''key'', ''value'']
               \<subseteq> set (map toLowerCase (row_keys ?row))
         \<and> \<not> list_ex (\<lambda>h. includes_str h ''title'') (map toLowerCase (row_keys ?row))"
    unfolding keys by simp
  then have "\<exists>row0 rest. [?row] = row0 # rest
         \<and> set [''handle'', ''namespace'', ''key'', ''value'']
               \<subseteq> set (map toLowerCase (row_keys row0))
         \<and> \<not> list_ex (\<lambda>h. includes_str h ''title'') (map toLowerCase (row_keys row0))"
    by blast
  with detectCSVFormat_metafields[of "[?row]"] show "detectCSVFormat [?row] = Metafields"
    by (simp only:)
  have "map toLowerCase (row_keys ?ROW) = map toLowerCase (row_keys ?row)"
    by (simp add: row_keys_def toLowerCase_def lowerChar_def)
  with detectCSVFormat_metafields[of _ ?ROW ?row "[]" "[]"]
  show "detectCSVFormat [?ROW] = detectCSVFormat [?row]"
    by (simp only:)
qed

text \<open>
  The claim as stated fails: the headers \<^verbatim>\<open>Handle\<close>, \<^verbatim>\<open>Namespace\<close>, \<^verbatim>\<open>Key\<close>,
  \<^verbatim>\<open>Value\<close> hold the four names only in another letter case, and the table is
  classified as \<^verbatim>\<open>metafields\<close>.
\<close>

theorem detectCSVFormat_case_counterexample:
  "detectCSVFormat [[(''Handle'', ''red-board''), (''Namespace'', ''custom''),
     (''Key'', ''color''), (''Value'', ''red'')]] = Metafields"
  by (simp add: detectCSVFormat_def row_keys_def toLowerCase_def lowerChar_def)

section \<open>The update input of the two executors\<close>

text \<open>
  The update input of the background processor is the one of the request handler with
  another description: the title of the row, whenever the row has a body.
\<close>

lemma bg_updateInput_differs_only_in_description:
  "bg_processProductProperties_updateInput rt product productData =
     (processProductProperties_updateInput rt product productData)
       \<lparr> upd_descriptionHtml :=
           (if p_bodyHtml productData \<noteq> [] then Some (p_title productData) else None) \<rparr>"
  by (simp add: bg_processProductProperties_updateInput_def processProductProperties_updateInput_def)

lemma row_body:
  "p_bodyHtml (productValidatedRow [(''Handle'', ''red-board''), (''Title'', ''Red Board''),
      (''Body (HTML)'', ''<p>Nice</p>'')]) = ''<p>Nice</p>''"
  by code_simp

lemma row_title:
  "p_title (productValidatedRow [(''Handle'', ''red-board''), (''Title'', ''Red Board''),
      (''Body (HTML)'', ''<p>Nice</p>'')]) = ''Red Board''"
  by code_simp

lemma row_valid:
  "validateProductCSVData [[(''Handle'', ''red-board''), (''Title'', ''Red Board''),
      (''Body (HTML)'', ''<p>Nice</p>'')]]
   = Inr [productValidatedRow [(''Handle'', ''red-board''), (''Title'', ''Red Board''),
      (''Body (HTML)'', ''<p>Nice</p>'')]]"
  by code_simp

text \<open>
  Claim C5. The row \<^verbatim>\<open>Handle = red-board\<close>, \<^verbatim>\<open>Title = Red Board\<close>,
  \<^verbatim>\<open>Body (HTML) = <p>Nice</p>\<close> passes validation; for its validated record the update
  input of the request handler has the body as its description, and the update input of
  the background processor has the title as its description. The two inputs are not
  equal, and the background processor does not take the description from the body.
\<close>

theorem bg_processProductProperties_description_from_title:
  "\<forall>rt :: string runtime.
     validateProductCSVData [[(''Handle'', ''red-board''), (''Title'', ''Red Board''),
        (''Body (HTML)'', ''<p>Nice</p>'')]]
       = Inr [productValidatedRow [(''Handle'', ''red-board''), (''Title'', ''Red Board''),
           (''Body (HTML)'', ''<p>Nice</p>'')]]
     \<and> upd_descriptionHtml (processProductProperties_updateInput rt
           \<lparr> prod_id = ''gid://shopify/Product/1'', prod_title = ''Board'', prod_tags = [] \<rparr>
           (productValidatedRow [(''Handle'', ''red-board''), (''Title'', ''Red Board''),
              (''Body (HTML)'', ''<p>Nice</p>'')]))
         = Some ''<p>Nice</p>''
     \<and> upd_descriptionHtml (bg_processProductProperties_updateInput rt
           \<lparr> prod_id = ''gid://shopify/Product/1'', prod_title = ''Board'', prod_tags = [] \<rparr>
           (productValidatedRow [(''Handle'', ''red-board''), (''Title'', ''Red Board''),
              (''Body (HTML)'', ''<p>Nice</p>'')]))
         = Some ''Red Board''"
  by (simp add: row_valid row_body row_title
        bg_processProductProperties_updateInput_def processProductProperties_updateInput_def)

section \<open>Errors of the operation on one handle\<close>





section \<open>Properties of row validation\<close>



















section \<open>The dry run of the end-to-end scenario\<close>

text \<open>
  The steps of \<^verbatim>\<open>action\<close> on the table of the scenario: the text is left as it is by
  the cleaning and by the preview step, its row passes validation, and the group of the
  one handle holds one field update.
\<close>

lemma scenarioA_clean: "cleanCSV scenarioA_text = scenarioA_text"
  by code_simp

lemma scenarioA_preview: "previewLimit True scenarioA_text = scenarioA_text"
  by code_simp

lemma scenarioA_validated:
  "validateCSVData [scenarioA_row] =
     Inr (ValidatedMetafields
       [\<lparr> m_handle = ''red-board'', m_namespace = ''custom'', m_key = ''color'',
          m_value = ''red'', m_type = ''single_line_text_field'' \<rparr>])"
  by code_simp

lemma scenarioA_grouped:
  "groupDataByHandle (ValidatedMetafields
       [\<lparr> m_handle = ''red-board'', m_namespace = ''custom'', m_key = ''color'',
          m_value = ''red'', m_type = ''single_line_text_field'' \<rparr>]) =
     Inr (GroupedMetafields
       [(''red-board'', [\<lparr> f_namespace = ''custom'', f_key = ''color'', f_value = ''red'',
           f_type = ''single_line_text_field'' \<rparr>])])"
  by code_simp

lemma scenarioA_handles:
  "handles_of (GroupedMetafields
       [(''red-board'', [\<lparr> f_namespace = ''custom'', f_key = ''color'', f_value = ''red'',
           f_type = ''single_line_text_field'' \<rparr>])]) = [''red-board'']"
  by code_simp

lemma scenarioA_batches: "createBatches [''red-board''] 3 = Some [[''red-board'']]"
  by (simp add: createBatches_def createBatches_loop_step createBatches_loop_done slice_def)

lemma fix_red: "fixEncodingIssues ''red'' = ''red''"
  by code_simp

lemma text_valid:
  "validateMetafieldValue rt v ''single_line_text_field''"
  by (simp add: validateMetafieldValue_def)

lemma text_format:
  "formatMetafieldValue rt v ''single_line_text_field'' = Inr (fixEncodingIssues v)"
  by (simp add: formatMetafieldValue_def)

lemma scenarioA_parse:
  assumes "papa_standard pp scenarioA_text =
             Inr \<lparr> papa_data = [scenarioA_row], papa_errors = [] \<rparr>"
  shows "parseCSV pp True scenarioA_text =
     Inr (ValidatedMetafields
       [\<lparr> m_handle = ''red-board'', m_namespace = ''custom'', m_key = ''color'',
          m_value = ''red'', m_type = ''single_line_text_field'' \<rparr>])"
  using assms
  by (simp add: parseCSV_def scenarioA_clean scenarioA_preview scenarioA_validated)

lemma scenarioA_handle:
  assumes "productByHandle remote ''red-board'' = Inr (Some product)"
  shows "action_handle rt remote (GroupedMetafields
       [(''red-board'', [\<lparr> f_namespace = ''custom'', f_key = ''color'', f_value = ''red'',
           f_type = ''single_line_text_field'' \<rparr>])]) True ''red-board''
       (initialState 1 Metafields) =
     \<lparr> st_results = \<lparr> r_processed = 1, r_errors = [],
          r_success = [[(''handle'', JString ''red-board''),
                        (''metafieldsToUpdate'', JNumber 1),
                        (''productTitle'', JString (prod_title product)),
                        (''dryRun'', JBool True)]],
          r_total = 1, r_format = Metafields \<rparr>,
       st_trace = [Graphql (GET_PRODUCT_BY_HANDLE ''red-board'') 3] \<rparr>"
  using assms
  by (simp add: action_handle_def processGroup_def processMetafields_def text_valid
        text_format fix_red pushSuccess_def incProcessed_def emit_def initialState_def
        RATE_LIMIT_CONFIG_def)

lemma scenarioA_action:
  assumes "papa_standard pp scenarioA_text =
             Inr \<lparr> papa_data = [scenarioA_row], papa_errors = [] \<rparr>"
    and "productByHandle remote ''red-board'' = Inr (Some product)"
  shows "action rt pp remote (Some scenarioA_text) True =
     Some (Processed
        \<lparr> r_processed = 1, r_errors = [],
          r_success = [[(''handle'', JString ''red-board''),
                        (''metafieldsToUpdate'', JNumber 1),
                        (''productTitle'', JString (prod_title product)),
                        (''dryRun'', JBool True)]],
          r_total = 1, r_format = Metafields \<rparr> True,
        [Graphql (GET_PRODUCT_BY_HANDLE ''red-board'') 3])"
proof -
  have size: "getOptimalBatchSize (Suc 0) = 3"
    by (simp add: getOptimalBatchSize_def RATE_LIMIT_CONFIG_def)
  note h = scenarioA_handle[OF assms(2), of rt, unfolded One_nat_def]
  show ?thesis
    by (simp add: action_def action_run_def scenarioA_parse[OF assms(1)] scenarioA_grouped scenarioA_handles
          size scenarioA_batches h format_of_def)
qed

lemma scenarioA_papa_decodes:
  "papa_standard scenarioA_papa scenarioA_text =
     Inr \<lparr> papa_data = [scenarioA_row], papa_errors = [] \<rparr>"
  by (simp add: scenarioA_papa_def)

lemma scenarioA_remote_finds:
  "productByHandle scenarioA_remote ''red-board'' =
     Inr (Some \<lparr> prod_id = ''gid://shopify/Product/1'', prod_title = ''Red Board'',
                  prod_tags = [] \<rparr>)"
  by (simp add: scenarioA_remote_def)

text \<open>
  Claim C1, as amended. For a dry-run submission of the table whose only row is
  \<^verbatim>\<open>red-board,custom,color,red,single_line_text_field\<close>, read so by the decoder, and a
  remote service that finds the product: the rows are grouped into one entity key with
  one field update; the run returns; the only call to the remote service is the lookup,
  so no mutation is sent; and the summary has one processed key, no error and one success
  entry, whose count of fields is 1 under the key \<^verbatim>\<open>metafieldsToUpdate\<close>.
\<close>

theorem action_scenarioA_dry_run:
  assumes "papa_standard pp scenarioA_text =
             Inr \<lparr> papa_data = [scenarioA_row], papa_errors = [] \<rparr>"
    and "productByHandle remote ''red-board'' = Inr (Some product)"
  shows "parseCSV pp True scenarioA_text =
           Inr (ValidatedMetafields
             [\<lparr> m_handle = ''red-board'', m_namespace = ''custom'', m_key = ''color'',
                m_value = ''red'', m_type = ''single_line_text_field'' \<rparr>])
         \<and> groupDataByHandle (ValidatedMetafields
             [\<lparr> m_handle = ''red-board'', m_namespace = ''custom'', m_key = ''color'',
                m_value = ''red'', m_type = ''single_line_text_field'' \<rparr>]) =
           Inr (GroupedMetafields
             [(''red-board'', [\<lparr> f_namespace = ''custom'', f_key = ''color'',
                 f_value = ''red'', f_type = ''single_line_text_field'' \<rparr>])])
         \<and> action rt pp remote (Some scenarioA_text) True =
           Some (Processed
              \<lparr> r_processed = 1, r_errors = [],
                r_success = [[(''handle'', JString ''red-board''),
                              (''metafieldsToUpdate'', JNumber 1),
                              (''productTitle'', JString (prod_title product)),
                              (''dryRun'', JBool True)]],
                r_total = 1, r_format = Metafields \<rparr> True,
              [Graphql (GET_PRODUCT_BY_HANDLE ''red-board'') 3])"
  using scenarioA_parse[OF assms(1)] scenarioA_grouped scenarioA_action[OF assms]
  by (intro conjI)

theorem action_scenarioA_dry_run_witness:
  "\<forall>rt :: string runtime.
     action rt scenarioA_papa scenarioA_remote (Some scenarioA_text) True =
       Some (Processed
          \<lparr> r_processed = 1, r_errors = [],
            r_success = [[(''handle'', JString ''red-board''),
                          (''metafieldsToUpdate'', JNumber 1),
                          (''productTitle'', JString ''Red Board''),
                          (''dryRun'', JBool True)]],
            r_total = 1, r_format = Metafields \<rparr> True,
          [Graphql (GET_PRODUCT_BY_HANDLE ''red-board'') 3])"
proof
  fix rt :: "string runtime"
  from action_scenarioA_dry_run[OF scenarioA_papa_decodes scenarioA_remote_finds, of rt]
  show "action rt scenarioA_papa scenarioA_remote (Some scenarioA_text) True =
       Some (Processed
          \<lparr> r_processed = 1, r_errors = [],
            r_success = [[(''handle'', JString ''red-board''),
                          (''metafieldsToUpdate'', JNumber 1),
                          (''productTitle'', JString ''Red Board''),
                          (''dryRun'', JBool True)]],
            r_total = 1, r_format = Metafields \<rparr> True,
          [Graphql (GET_PRODUCT_BY_HANDLE ''red-board'') 3])"
    by simp
qed

text \<open>
  The claim as stated fails: the success entry of this run has no key
  \<^verbatim>\<open>fieldsToUpdate\<close>; that key belongs to the entries of product tables.
\<close>

theorem action_scenarioA_key_counterexample:
  "\<forall>rt :: string runtime.
     \<exists>res tr. action rt scenarioA_papa scenarioA_remote (Some scenarioA_text) True
                 = Some (Processed res True, tr)
       \<and> map (\<lambda>entry. map_of entry ''fieldsToUpdate'') (r_success res) = [None]
       \<and> map (\<lambda>entry. map_of entry ''metafieldsToUpdate'') (r_success res)
           = [Some (JNumber 1)]"
proof
  fix rt :: "string runtime"
  show "\<exists>res tr. action rt scenarioA_papa scenarioA_remote (Some scenarioA_text) True
                 = Some (Processed res True, tr)
       \<and> map (\<lambda>entry. map_of entry ''fieldsToUpdate'') (r_success res) = [None]
       \<and> map (\<lambda>entry. map_of entry ''metafieldsToUpdate'') (r_success res)
           = [Some (JNumber 1)]"
    unfolding scenarioA_action[OF scenarioA_papa_decodes scenarioA_remote_finds, of rt]
    by simp
qed

section \<open>Properties of value formatting\<close>




















section \<open>Properties of the preview step\<close>

































end
